theory Spec2Isabelle
  imports Main
begin

section \<open>Relation-change analysis: data model\<close>

text \<open>
  A shallow embedding of \<^verbatim>\<open>relation-changes.ts\<close>. The relation records and the diff are
  untyped JavaScript objects in the source (\<^verbatim>\<open>any\<close>); the model gives them the fields the
  code reads and writes. Informational \<^verbatim>\<open>logger.log\<close> calls are left out; the two kinds
  of \<^verbatim>\<open>logger.warn\<close> calls are kept as a list of warnings beside the diff.
\<close>

text \<open>
  The values \<^verbatim>\<open>rel.targetTable\<close> and \<^verbatim>\<open>rel.targetTableName\<close> can hold: nothing,
  \<^verbatim>\<open>null\<close>, a plain table name, or a reference object whose \<^verbatim>\<open>id\<close> may be missing.
\<close>

datatype js_target = JUndefined | JNull | JName string | JTableRef "int option"

text \<open>JavaScript truthiness, as used by \<^verbatim>\<open>||\<close>, \<^verbatim>\<open>!\<close> and \<^verbatim>\<open>?:\<close>.\<close>

fun truthy_target :: "js_target \<Rightarrow> bool" where
  "truthy_target JUndefined = False"
| "truthy_target JNull = False"
| "truthy_target (JName s) = (s \<noteq> [])"
| "truthy_target (JTableRef i) = True"

fun truthy_string :: "string option \<Rightarrow> bool" where
  "truthy_string None = False"
| "truthy_string (Some s) = (s \<noteq> [])"

fun truthy_number :: "int option \<Rightarrow> bool" where
  "truthy_number None = False"
| "truthy_number (Some n) = (n \<noteq> 0)"

record relation =
  rel_id :: int
  propertyName :: string
  rel_type :: string
  sourceTableName :: "string option"
  targetTable :: js_target
  targetTableName :: js_target
  inversePropertyName :: "string option"
  foreignKeyColumn :: "string option"
  isNullable :: "bool option"
  junctionTableName :: "string option"

text \<open>The entries the planners push onto the diff.\<close>

record column_delete =
  cd_name :: string
  cd_isForeignKey :: bool

record column_create =
  cc_name :: string
  cc_type :: string
  cc_isNullable :: bool
  cc_isForeignKey :: bool
  cc_foreignKeyTarget :: js_target
  cc_foreignKeyColumn :: string

datatype cross_table_operation =
    DropColumn js_target string bool
  | CreateColumn js_target column_create

record junction_create =
  jc_tableName :: string
  jc_sourceTable :: string
  jc_targetTable :: js_target
  jc_sourceColumn :: string
  jc_targetColumn :: string

record junction_drop =
  jd_tableName :: "string option"
  jd_reason :: string

text \<open>Entries of \<^verbatim>\<open>junctionTables.update\<close> are never built or read by this file.\<close>

typedecl junction_update

text \<open>
  \<^verbatim>\<open>diff.junctionTables\<close>, when present, holds the three arrays: the only shape the code
  creates (\<^verbatim>\<open>{ create: [], drop: [], update: [] }\<close>). A caller's object that lacks some
  of them is modelled further down, with the type-change resolver over it.
\<close>

record junction_tables =
  jt_create :: "junction_create list"
  jt_drop :: "junction_drop list"
  jt_update :: "junction_update list"

text \<open>
  \<^verbatim>\<open>diff.columns\<close> and its two arrays come from the caller; each may be missing, and a
  \<^verbatim>\<open>push\<close> through a missing one throws a TypeError.
\<close>

record diff_columns =
  col_create :: "column_create list option"
  col_delete :: "column_delete list option"

record diff =
  columns :: "diff_columns option"
  crossTableOperations :: "cross_table_operation list option"
  junctionTables :: "junction_tables option"

text \<open>
  \<^verbatim>\<open>TypeError\<close>: a property read through \<^verbatim>\<open>undefined\<close> or \<^verbatim>\<open>null\<close>.
  \<^verbatim>\<open>MissingInverse p\<close>: the thrown
  \<^verbatim>\<open>Error("O2M relation 'p' must have inversePropertyName to determine FK column name")\<close>.
\<close>

datatype error = TypeError | MissingInverse string

datatype warning =
    WarnMissingInverse string
  | WarnUnhandledTypeChange string string

text \<open>
  The diff is mutated in place, so a throw leaves the caller with the diff as it was at
  that moment: a failed run carries the state it stopped in.
\<close>

type_synonym state = "diff \<times> warning list"
type_synonym outcome = "(error \<times> state) + state"

definition andThen :: "outcome \<Rightarrow> (state \<Rightarrow> outcome) \<Rightarrow> outcome" where
  "andThen r f = (case r of Inl e \<Rightarrow> Inl e | Inr s \<Rightarrow> f s)"

definition final_state :: "outcome \<Rightarrow> state" where
  "final_state r = (case r of Inl (e, s) \<Rightarrow> s | Inr s \<Rightarrow> s)"

text \<open>
  The naming helpers are imported from \<^verbatim>\<open>shared/utils/naming-helpers\<close>; they are
  parameters of the model.
\<close>

record naming =
  getForeignKeyColumnName :: "string \<Rightarrow> string"
  getJunctionTableName :: "string \<Rightarrow> string \<Rightarrow> js_target \<Rightarrow> string"
  getJunctionColumnNames :: "string \<Rightarrow> string \<Rightarrow> js_target \<Rightarrow> string \<times> string"

section \<open>Mutations of the diff\<close>

definition warn :: "warning \<Rightarrow> state \<Rightarrow> state" where
  "warn w s = (fst s, snd s @ [w])"

text \<open>\<^verbatim>\<open>diff.columns.delete.push(e)\<close>\<close>

definition push_columns_delete :: "column_delete \<Rightarrow> state \<Rightarrow> outcome" where
  "push_columns_delete e s =
     (case columns (fst s) of
        None \<Rightarrow> Inl (TypeError, s)
      | Some c \<Rightarrow>
          (case col_delete c of
             None \<Rightarrow> Inl (TypeError, s)
           | Some xs \<Rightarrow>
               Inr ((fst s)\<lparr>columns := Some (c\<lparr>col_delete := Some (xs @ [e])\<rparr>)\<rparr>, snd s)))"

text \<open>\<^verbatim>\<open>diff.columns.create.push(e)\<close>\<close>

definition push_columns_create :: "column_create \<Rightarrow> state \<Rightarrow> outcome" where
  "push_columns_create e s =
     (case columns (fst s) of
        None \<Rightarrow> Inl (TypeError, s)
      | Some c \<Rightarrow>
          (case col_create c of
             None \<Rightarrow> Inl (TypeError, s)
           | Some xs \<Rightarrow>
               Inr ((fst s)\<lparr>columns := Some (c\<lparr>col_create := Some (xs @ [e])\<rparr>)\<rparr>, snd s)))"

text \<open>\<^verbatim>\<open>if (!diff.crossTableOperations) diff.crossTableOperations = [];\<close>\<close>

definition init_crossTableOperations :: "state \<Rightarrow> state" where
  "init_crossTableOperations s =
     (case crossTableOperations (fst s) of
        None \<Rightarrow> ((fst s)\<lparr>crossTableOperations := Some []\<rparr>, snd s)
      | Some ops \<Rightarrow> s)"

text \<open>\<^verbatim>\<open>if (!diff.junctionTables) diff.junctionTables = { create: [], drop: [], update: [] };\<close>\<close>

definition init_junctionTables :: "state \<Rightarrow> state" where
  "init_junctionTables s =
     (case junctionTables (fst s) of
        None \<Rightarrow>
          ((fst s)\<lparr>junctionTables := Some \<lparr>jt_create = [], jt_drop = [], jt_update = []\<rparr>\<rparr>,
           snd s)
      | Some jt \<Rightarrow> s)"

text \<open>\<^verbatim>\<open>diff.crossTableOperations.push(e)\<close>\<close>

definition push_crossTableOperations :: "cross_table_operation \<Rightarrow> state \<Rightarrow> outcome" where
  "push_crossTableOperations e s =
     (case crossTableOperations (fst s) of
        None \<Rightarrow> Inl (TypeError, s)
      | Some ops \<Rightarrow> Inr ((fst s)\<lparr>crossTableOperations := Some (ops @ [e])\<rparr>, snd s))"

text \<open>\<^verbatim>\<open>diff.junctionTables.create.push(e)\<close>\<close>

definition push_junction_create :: "junction_create \<Rightarrow> state \<Rightarrow> outcome" where
  "push_junction_create e s =
     (case junctionTables (fst s) of
        None \<Rightarrow> Inl (TypeError, s)
      | Some jt \<Rightarrow>
          Inr ((fst s)\<lparr>junctionTables := Some (jt\<lparr>jt_create := jt_create jt @ [e]\<rparr>)\<rparr>, snd s))"

text \<open>\<^verbatim>\<open>diff.junctionTables.drop.push(e)\<close>\<close>

definition push_junction_drop :: "junction_drop \<Rightarrow> state \<Rightarrow> outcome" where
  "push_junction_drop e s =
     (case junctionTables (fst s) of
        None \<Rightarrow> Inl (TypeError, s)
      | Some jt \<Rightarrow>
          Inr ((fst s)\<lparr>junctionTables := Some (jt\<lparr>jt_drop := jt_drop jt @ [e]\<rparr>)\<rparr>, snd s))"

section \<open>Derived names and entries\<close>

text \<open>\<^verbatim>\<open>rel.foreignKeyColumn || getForeignKeyColumnName(rel.propertyName)\<close>\<close>

definition fkColumnFromProperty :: "naming \<Rightarrow> relation \<Rightarrow> string" where
  "fkColumnFromProperty nm rel =
     (case foreignKeyColumn rel of
        None \<Rightarrow> getForeignKeyColumnName nm (propertyName rel)
      | Some c \<Rightarrow> if c \<noteq> [] then c else getForeignKeyColumnName nm (propertyName rel))"

text \<open>
  \<^verbatim>\<open>rel.foreignKeyColumn || getForeignKeyColumnName(rel.inversePropertyName)\<close>, reached
  only past the \<^verbatim>\<open>!rel.inversePropertyName\<close> check, with the inverse name \<open>ipn\<close>.
\<close>

definition fkColumnFromInverse :: "naming \<Rightarrow> relation \<Rightarrow> string \<Rightarrow> string" where
  "fkColumnFromInverse nm rel ipn =
     (case foreignKeyColumn rel of
        None \<Rightarrow> getForeignKeyColumnName nm ipn
      | Some c \<Rightarrow> if c \<noteq> [] then c else getForeignKeyColumnName nm ipn)"

text \<open>The \<^verbatim>\<open>columns.delete\<close> entry \<^verbatim>\<open>{ name: fkColumn, isForeignKey: true }\<close>.\<close>

definition dropFkEntry :: "naming \<Rightarrow> relation \<Rightarrow> column_delete" where
  "dropFkEntry nm rel = \<lparr>cd_name = fkColumnFromProperty nm rel, cd_isForeignKey = True\<rparr>"

text \<open>The \<^verbatim>\<open>columns.create\<close> entry of a many-to-one or one-to-one relation.\<close>

definition createFkEntry :: "naming \<Rightarrow> relation \<Rightarrow> column_create" where
  "createFkEntry nm rel =
     \<lparr>cc_name = fkColumnFromProperty nm rel,
      cc_type = ''int'',
      cc_isNullable = (case isNullable rel of None \<Rightarrow> True | Some b \<Rightarrow> b),
      cc_isForeignKey = True,
      cc_foreignKeyTarget = targetTableName rel,
      cc_foreignKeyColumn = ''id''\<rparr>"

text \<open>The cross-table \<^verbatim>\<open>dropColumn\<close> entry of a one-to-many relation.\<close>

definition dropInverseFkEntry :: "naming \<Rightarrow> relation \<Rightarrow> string \<Rightarrow> cross_table_operation" where
  "dropInverseFkEntry nm rel ipn =
     DropColumn (targetTableName rel) (fkColumnFromInverse nm rel ipn) True"

text \<open>The cross-table \<^verbatim>\<open>createColumn\<close> entry of a one-to-many relation.\<close>

definition createInverseFkEntry ::
  "naming \<Rightarrow> relation \<Rightarrow> string \<Rightarrow> string \<Rightarrow> cross_table_operation" where
  "createInverseFkEntry nm rel ipn tableName =
     CreateColumn (targetTableName rel)
       \<lparr>cc_name = fkColumnFromInverse nm rel ipn,
        cc_type = ''int'',
        cc_isNullable = True,
        cc_isForeignKey = True,
        cc_foreignKeyTarget = JName tableName,
        cc_foreignKeyColumn = ''id''\<rparr>"

text \<open>The \<^verbatim>\<open>junctionTables.create\<close> entry of a many-to-many relation.\<close>

definition createJunctionEntry :: "naming \<Rightarrow> relation \<Rightarrow> string \<Rightarrow> junction_create" where
  "createJunctionEntry nm rel tableName =
     \<lparr>jc_tableName = getJunctionTableName nm tableName (propertyName rel) (targetTableName rel),
      jc_sourceTable = tableName,
      jc_targetTable = targetTableName rel,
      jc_sourceColumn =
        fst (getJunctionColumnNames nm tableName (propertyName rel) (targetTableName rel)),
      jc_targetColumn =
        snd (getJunctionColumnNames nm tableName (propertyName rel) (targetTableName rel))\<rparr>"

section \<open>Deletion planner\<close>

text \<open>The body of the loop of \<^verbatim>\<open>handleDeletedRelations\<close>, for the relation found.\<close>

definition deletedRelation :: "naming \<Rightarrow> relation \<Rightarrow> state \<Rightarrow> outcome" where
  "deletedRelation nm rel s =
     (if rel_type rel = ''many-to-one'' \<or> rel_type rel = ''one-to-one'' then
        push_columns_delete (dropFkEntry nm rel) s
      else if rel_type rel = ''one-to-many'' then
        (case inversePropertyName rel of
           None \<Rightarrow> Inr (warn (WarnMissingInverse (propertyName rel)) s)
         | Some ipn \<Rightarrow>
             if ipn = [] then Inr (warn (WarnMissingInverse (propertyName rel)) s)
             else push_crossTableOperations (dropInverseFkEntry nm rel ipn)
                    (init_crossTableOperations s))
      else if rel_type rel = ''many-to-many'' then
        push_junction_drop
          \<lparr>jd_tableName = junctionTableName rel, jd_reason = ''Relation deleted''\<rparr>
          (init_junctionTables s)
      else Inr s)"

fun handleDeletedRelations ::
  "naming \<Rightarrow> relation list \<Rightarrow> int list \<Rightarrow> state \<Rightarrow> outcome" where
  "handleDeletedRelations nm oldRelations [] s = Inr s"
| "handleDeletedRelations nm oldRelations (relId # relIds) s =
     (case find (\<lambda>r. rel_id r = relId) oldRelations of
        None \<Rightarrow> handleDeletedRelations nm oldRelations relIds s
      | Some rel \<Rightarrow>
          (case deletedRelation nm rel s of
             Inl e \<Rightarrow> Inl e
           | Inr s' \<Rightarrow> handleDeletedRelations nm oldRelations relIds s'))"

section \<open>Creation planner\<close>

text \<open>The body of the loop of \<^verbatim>\<open>handleCreatedRelations\<close>, for the relation found.\<close>

definition createdRelation :: "naming \<Rightarrow> relation \<Rightarrow> string \<Rightarrow> state \<Rightarrow> outcome" where
  "createdRelation nm rel tableName s =
     (if rel_type rel = ''many-to-one'' \<or> rel_type rel = ''one-to-one'' then
        push_columns_create (createFkEntry nm rel) s
      else if rel_type rel = ''one-to-many'' then
        (case inversePropertyName rel of
           None \<Rightarrow> Inr (warn (WarnMissingInverse (propertyName rel)) s)
         | Some ipn \<Rightarrow>
             if ipn = [] then Inr (warn (WarnMissingInverse (propertyName rel)) s)
             else push_crossTableOperations (createInverseFkEntry nm rel ipn tableName)
                    (init_crossTableOperations s))
      else if rel_type rel = ''many-to-many'' then
        push_junction_create (createJunctionEntry nm rel tableName) (init_junctionTables s)
      else Inr s)"

fun handleCreatedRelations ::
  "naming \<Rightarrow> relation list \<Rightarrow> int list \<Rightarrow> string \<Rightarrow> state \<Rightarrow> outcome" where
  "handleCreatedRelations nm newRelations [] tableName s = Inr s"
| "handleCreatedRelations nm newRelations (relId # relIds) tableName s =
     (case find (\<lambda>r. rel_id r = relId) newRelations of
        None \<Rightarrow> handleCreatedRelations nm newRelations relIds tableName s
      | Some rel \<Rightarrow>
          (case createdRelation nm rel tableName s of
             Inl e \<Rightarrow> Inl e
           | Inr s' \<Rightarrow> handleCreatedRelations nm newRelations relIds tableName s'))"

section \<open>Type-change resolver\<close>

definition handleRelationTypeChange ::
  "naming \<Rightarrow> relation \<Rightarrow> relation \<Rightarrow> string \<Rightarrow> state \<Rightarrow> outcome" where
  "handleRelationTypeChange nm oldRel newRel tableName s0 =
     (let s = init_junctionTables (init_crossTableOperations s0);
          oldType = rel_type oldRel;
          newType = rel_type newRel
      in
      if (oldType = ''many-to-one'' \<or> oldType = ''one-to-one'') \<and> newType = ''many-to-many''
      then
        andThen (push_columns_delete (dropFkEntry nm oldRel) s)
          (push_junction_create (createJunctionEntry nm newRel tableName))
      else if oldType = ''many-to-many''
              \<and> (newType = ''many-to-one'' \<or> newType = ''one-to-one'')
      then
        andThen
          (push_junction_drop
             \<lparr>jd_tableName = junctionTableName oldRel,
              jd_reason = ''Relation type changed from M2M to M2O/O2O''\<rparr> s)
          (push_columns_create (createFkEntry nm newRel))
      else if oldType = ''one-to-many'' \<and> newType = ''many-to-many''
      then
        (case inversePropertyName oldRel of
           None \<Rightarrow> Inl (MissingInverse (propertyName oldRel), s)
         | Some ipn \<Rightarrow>
             if ipn = [] then Inl (MissingInverse (propertyName oldRel), s)
             else
               andThen (push_crossTableOperations (dropInverseFkEntry nm oldRel ipn) s)
                 (push_junction_create (createJunctionEntry nm newRel tableName)))
      else if oldType = ''many-to-many'' \<and> newType = ''one-to-many''
      then
        andThen
          (push_junction_drop
             \<lparr>jd_tableName = junctionTableName oldRel,
              jd_reason = ''Relation type changed from M2M to O2M''\<rparr> s)
          (\<lambda>s1.
             case inversePropertyName newRel of
               None \<Rightarrow> Inl (MissingInverse (propertyName newRel), s1)
             | Some ipn \<Rightarrow>
                 if ipn = [] then Inl (MissingInverse (propertyName newRel), s1)
                 else push_crossTableOperations
                        (createInverseFkEntry nm newRel ipn tableName) s1)
      else if (oldType = ''many-to-one'' \<or> oldType = ''one-to-one'')
              \<and> newType = ''one-to-many''
      then
        andThen (push_columns_delete (dropFkEntry nm oldRel) s)
          (\<lambda>s1.
             case inversePropertyName newRel of
               None \<Rightarrow> Inl (MissingInverse (propertyName newRel), s1)
             | Some ipn \<Rightarrow>
                 if ipn = [] then Inl (MissingInverse (propertyName newRel), s1)
                 else push_crossTableOperations
                        (createInverseFkEntry nm newRel ipn tableName) s1)
      else if oldType = ''one-to-many''
              \<and> (newType = ''many-to-one'' \<or> newType = ''one-to-one'')
      then
        (case inversePropertyName oldRel of
           None \<Rightarrow> Inl (MissingInverse (propertyName oldRel), s)
         | Some ipn \<Rightarrow>
             if ipn = [] then Inl (MissingInverse (propertyName oldRel), s)
             else
               andThen (push_crossTableOperations (dropInverseFkEntry nm oldRel ipn) s)
                 (push_columns_create (createFkEntry nm newRel)))
      else if (oldType = ''many-to-one'' \<and> newType = ''one-to-one'')
              \<or> (oldType = ''one-to-one'' \<and> newType = ''many-to-one'')
      then Inr s
      else Inr (warn (WarnUnhandledTypeChange oldType newType) s))"

section \<open>Update planner\<close>

datatype change = PropertyNameChanged | TypeChanged | TargetChanged | NullableChanged

text \<open>
  The \<^verbatim>\<open>changes\<close> array of \<^verbatim>\<open>handleUpdatedRelations\<close>, by the field that differs (the
  source stores a message for the log). Two reference objects are compared by their
  contents here and by identity in the source; only the log depends on it, since a type
  change alone makes the array non-empty.
\<close>

definition changes :: "relation \<Rightarrow> relation \<Rightarrow> change list" where
  "changes oldRel newRel =
     (if propertyName oldRel \<noteq> propertyName newRel then [PropertyNameChanged] else [])
     @ (if rel_type oldRel \<noteq> rel_type newRel then [TypeChanged] else [])
     @ (if targetTableName oldRel \<noteq> targetTableName newRel then [TargetChanged] else [])
     @ (if isNullable oldRel \<noteq> isNullable newRel then [NullableChanged] else [])"

text \<open>The body of the loop of \<^verbatim>\<open>handleUpdatedRelations\<close>, for a matched pair.\<close>

definition updatedRelation ::
  "naming \<Rightarrow> relation \<Rightarrow> relation \<Rightarrow> string \<Rightarrow> state \<Rightarrow> outcome" where
  "updatedRelation nm oldRel newRel tableName s =
     (if length (changes oldRel newRel) > 0 then
        (if rel_type oldRel \<noteq> rel_type newRel
         then handleRelationTypeChange nm oldRel newRel tableName s
         else Inr s)
      else Inr s)"

text \<open>
  A JavaScript \<^verbatim>\<open>Map\<close> as the list of its entries in insertion order: \<^verbatim>\<open>set\<close> on a
  key already present replaces the value where the key stands, and appends otherwise.
\<close>

fun Map_set :: "'k \<Rightarrow> 'v \<Rightarrow> ('k \<times> 'v) list \<Rightarrow> ('k \<times> 'v) list" where
  "Map_set k v [] = [(k, v)]"
| "Map_set k v ((k', v') # m) = (if k' = k then (k, v) # m else (k', v') # Map_set k v m)"

definition new_Map :: "('k \<times> 'v) list \<Rightarrow> ('k \<times> 'v) list" where
  "new_Map entries = fold (\<lambda>(k, v) m. Map_set k v m) entries []"

definition Map_get :: "('k \<times> 'v) list \<Rightarrow> 'k \<Rightarrow> 'v option" where
  "Map_get m k = map_of m k"

definition Map_has :: "('k \<times> 'v) list \<Rightarrow> 'k \<Rightarrow> bool" where
  "Map_has m k = (map_of m k \<noteq> None)"

fun handleUpdatedRelations ::
  "naming \<Rightarrow> (int \<times> relation) list \<Rightarrow> (int \<times> relation) list \<Rightarrow> string \<Rightarrow> state \<Rightarrow> outcome"
  where
  "handleUpdatedRelations nm oldRelMap [] tableName s = Inr s"
| "handleUpdatedRelations nm oldRelMap ((relId, newRel) # newRelMap) tableName s =
     (case Map_get oldRelMap relId of
        None \<Rightarrow> handleUpdatedRelations nm oldRelMap newRelMap tableName s
      | Some oldRel \<Rightarrow>
          (case updatedRelation nm oldRel newRel tableName s of
             Inl e \<Rightarrow> Inl e
           | Inr s' \<Rightarrow> handleUpdatedRelations nm oldRelMap newRelMap tableName s'))"

section \<open>Name resolution and classification\<close>

text \<open>
  \<^verbatim>\<open>typeof rel.targetTable === 'object' ? rel.targetTable.id : null\<close>. The type of
  \<^verbatim>\<open>null\<close> is \<^verbatim>\<open>'object'\<close>, and reading its \<^verbatim>\<open>id\<close> throws.
\<close>

fun targetTableIdOf :: "relation \<Rightarrow> error + int option" where
  "targetTableIdOf rel =
     (case targetTable rel of
        JTableRef i \<Rightarrow> Inr i
      | JNull \<Rightarrow> Inl TypeError
      | JName n \<Rightarrow> Inr None
      | JUndefined \<Rightarrow> Inr None)"

text \<open>\<^verbatim>\<open>rels.map(f)\<close> for an \<open>f\<close> that may throw.\<close>

fun mapE :: "('a \<Rightarrow> error + 'b) \<Rightarrow> 'a list \<Rightarrow> error + 'b list" where
  "mapE f [] = Inr []"
| "mapE f (x # xs) =
     (case f x of
        Inl e \<Rightarrow> Inl e
      | Inr y \<Rightarrow> (case mapE f xs of Inl e \<Rightarrow> Inl e | Inr ys \<Rightarrow> Inr (y # ys)))"

text \<open>\<^verbatim>\<open>.filter(id => id != null)\<close>\<close>

definition nonNullIds :: "int option list \<Rightarrow> int list" where
  "nonNullIds ids = List.map_filter (\<lambda>i. i) ids"

definition targetTableIds :: "relation list \<Rightarrow> error + int list" where
  "targetTableIds rels =
     (case mapE targetTableIdOf rels of Inl e \<Rightarrow> Inl e | Inr ids \<Rightarrow> Inr (nonNullIds ids))"

text \<open>
  The rows of \<^verbatim>\<open>table_definition\<close> the query returns, entered into \<^verbatim>\<open>targetTablesMap\<close> in
  order; only \<^verbatim>\<open>get\<close> reads that map, so it is a partial function here.
\<close>

definition targetTablesMapOf :: "(int \<times> string) list \<Rightarrow> (int \<rightharpoonup> string)" where
  "targetTablesMapOf rows = fold (\<lambda>(i, n) m. m(i \<mapsto> n)) rows Map.empty"

text \<open>The function mapped over \<^verbatim>\<open>oldRelations\<close> and over \<^verbatim>\<open>newRelations\<close>.\<close>

definition resolveRelation ::
  "(int \<rightharpoonup> string) \<Rightarrow> string \<Rightarrow> relation \<Rightarrow> error + relation" where
  "resolveRelation targetTablesMap tableName rel =
     (case targetTableIdOf rel of
        Inl e \<Rightarrow> Inl e
      | Inr targetTableId \<Rightarrow>
          Inr (rel
            \<lparr>sourceTableName :=
               (if truthy_string (sourceTableName rel) then sourceTableName rel
                else Some tableName),
             targetTableName :=
               (if truthy_target (targetTableName rel) then targetTableName rel
                else if truthy_number targetTableId then
                  (case targetTableId of
                     None \<Rightarrow> JUndefined
                   | Some i \<Rightarrow>
                       (case targetTablesMap i of None \<Rightarrow> JUndefined | Some n \<Rightarrow> JName n))
                else targetTable rel)\<rparr>))"

definition relMap :: "relation list \<Rightarrow> (int \<times> relation) list" where
  "relMap rels = new_Map (map (\<lambda>r. (rel_id r, r)) rels)"

definition deletedRelIds :: "relation list \<Rightarrow> relation list \<Rightarrow> int list" where
  "deletedRelIds oldRelations newRelations =
     map rel_id (filter (\<lambda>r. \<not> Map_has (relMap newRelations) (rel_id r)) oldRelations)"

definition createdRelIds :: "relation list \<Rightarrow> relation list \<Rightarrow> int list" where
  "createdRelIds oldRelations newRelations =
     map rel_id (filter (\<lambda>r. \<not> Map_has (relMap oldRelations) (rel_id r)) newRelations)"

text \<open>
  The ids at which the loop of \<^verbatim>\<open>handleUpdatedRelations\<close> goes past
  \<^verbatim>\<open>if (!oldRel) continue\<close>: the matched relations.
\<close>

definition matchedRelIds :: "relation list \<Rightarrow> relation list \<Rightarrow> int list" where
  "matchedRelIds oldRelations newRelations =
     map fst (filter (\<lambda>(relId, newRel). Map_get (relMap oldRelations) relId \<noteq> None)
                (relMap newRelations))"

section \<open>The entry point\<close>

text \<open>
  \<open>lookup ids\<close> stands for the rows of
  \<^verbatim>\<open>knex('table_definition').select('id', 'name').whereIn('id', ids)\<close>.
\<close>

definition analyzeRelationChanges ::
  "naming \<Rightarrow> (int list \<Rightarrow> (int \<times> string) list) \<Rightarrow> relation list \<Rightarrow> relation list
     \<Rightarrow> string \<Rightarrow> state \<Rightarrow> outcome" where
  "analyzeRelationChanges nm lookup oldRelations newRelations tableName s =
     (case targetTableIds (oldRelations @ newRelations) of
        Inl e \<Rightarrow> Inl (e, s)
      | Inr ids \<Rightarrow>
          (let targetTablesMap =
                 (if length ids > 0 then targetTablesMapOf (lookup ids) else Map.empty)
           in
           case mapE (resolveRelation targetTablesMap tableName) oldRelations of
             Inl e \<Rightarrow> Inl (e, s)
           | Inr olds \<Rightarrow>
               (case mapE (resolveRelation targetTablesMap tableName) newRelations of
                  Inl e \<Rightarrow> Inl (e, s)
                | Inr news \<Rightarrow>
                    andThen (handleDeletedRelations nm olds (deletedRelIds olds news) s)
                      (\<lambda>s1.
                         andThen
                           (handleCreatedRelations nm news (createdRelIds olds news)
                              tableName s1)
                           (handleUpdatedRelations nm (relMap olds) (relMap news)
                              tableName)))))"

section \<open>The diff as any caller may pass it\<close>

text \<open>
  In the model above \<^verbatim>\<open>diff.junctionTables\<close>, when present, has its three arrays. A caller
  can also pass an object that lacks some of them (\<^verbatim>\<open>junctionTables: {}\<close>): it is truthy, so
  \<^verbatim>\<open>if (!diff.junctionTables)\<close> leaves it as it is, and a \<^verbatim>\<open>push\<close> through a missing array
  throws a TypeError. This section embeds the type-change resolver over diffs of that
  wider shape; on the diffs of the model above it is the resolver above
  (\<open>raw_handleRelationTypeChange_restricts\<close>).
\<close>

record raw_junction_tables =
  rjt_create :: "junction_create list option"
  rjt_drop :: "junction_drop list option"
  rjt_update :: "junction_update list option"

record raw_diff =
  raw_columns :: "diff_columns option"
  raw_crossTableOperations :: "cross_table_operation list option"
  raw_junctionTables :: "raw_junction_tables option"

type_synonym raw_state = "raw_diff \<times> warning list"
type_synonym raw_outcome = "(error \<times> raw_state) + raw_state"

text \<open>The mutations of the diff, over the wider shape.\<close>

definition raw_andThen :: "raw_outcome \<Rightarrow> (raw_state \<Rightarrow> raw_outcome) \<Rightarrow> raw_outcome" where
  "raw_andThen r f = (case r of Inl e \<Rightarrow> Inl e | Inr s \<Rightarrow> f s)"


definition raw_warn :: "warning \<Rightarrow> raw_state \<Rightarrow> raw_state" where
  "raw_warn w s = (fst s, snd s @ [w])"

definition raw_push_columns_delete :: "column_delete \<Rightarrow> raw_state \<Rightarrow> raw_outcome" where
  "raw_push_columns_delete e s =
     (case raw_columns (fst s) of
        None \<Rightarrow> Inl (TypeError, s)
      | Some c \<Rightarrow>
          (case col_delete c of
             None \<Rightarrow> Inl (TypeError, s)
           | Some xs \<Rightarrow>
               Inr ((fst s)\<lparr>raw_columns := Some (c\<lparr>col_delete := Some (xs @ [e])\<rparr>)\<rparr>,
                    snd s)))"

definition raw_push_columns_create :: "column_create \<Rightarrow> raw_state \<Rightarrow> raw_outcome" where
  "raw_push_columns_create e s =
     (case raw_columns (fst s) of
        None \<Rightarrow> Inl (TypeError, s)
      | Some c \<Rightarrow>
          (case col_create c of
             None \<Rightarrow> Inl (TypeError, s)
           | Some xs \<Rightarrow>
               Inr ((fst s)\<lparr>raw_columns := Some (c\<lparr>col_create := Some (xs @ [e])\<rparr>)\<rparr>,
                    snd s)))"

definition raw_init_crossTableOperations :: "raw_state \<Rightarrow> raw_state" where
  "raw_init_crossTableOperations s =
     (case raw_crossTableOperations (fst s) of
        None \<Rightarrow> ((fst s)\<lparr>raw_crossTableOperations := Some []\<rparr>, snd s)
      | Some ops \<Rightarrow> s)"

definition raw_init_junctionTables :: "raw_state \<Rightarrow> raw_state" where
  "raw_init_junctionTables s =
     (case raw_junctionTables (fst s) of
        None \<Rightarrow>
          ((fst s)\<lparr>raw_junctionTables :=
                     Some \<lparr>rjt_create = Some [], rjt_drop = Some [], rjt_update = Some []\<rparr>\<rparr>,
           snd s)
      | Some jt \<Rightarrow> s)"

definition raw_push_crossTableOperations ::
  "cross_table_operation \<Rightarrow> raw_state \<Rightarrow> raw_outcome" where
  "raw_push_crossTableOperations e s =
     (case raw_crossTableOperations (fst s) of
        None \<Rightarrow> Inl (TypeError, s)
      | Some ops \<Rightarrow> Inr ((fst s)\<lparr>raw_crossTableOperations := Some (ops @ [e])\<rparr>, snd s))"

definition raw_push_junction_create :: "junction_create \<Rightarrow> raw_state \<Rightarrow> raw_outcome" where
  "raw_push_junction_create e s =
     (case raw_junctionTables (fst s) of
        None \<Rightarrow> Inl (TypeError, s)
      | Some jt \<Rightarrow>
          (case rjt_create jt of
             None \<Rightarrow> Inl (TypeError, s)
           | Some xs \<Rightarrow>
               Inr ((fst s)\<lparr>raw_junctionTables := Some (jt\<lparr>rjt_create := Some (xs @ [e])\<rparr>)\<rparr>,
                    snd s)))"

definition raw_push_junction_drop :: "junction_drop \<Rightarrow> raw_state \<Rightarrow> raw_outcome" where
  "raw_push_junction_drop e s =
     (case raw_junctionTables (fst s) of
        None \<Rightarrow> Inl (TypeError, s)
      | Some jt \<Rightarrow>
          (case rjt_drop jt of
             None \<Rightarrow> Inl (TypeError, s)
           | Some xs \<Rightarrow>
               Inr ((fst s)\<lparr>raw_junctionTables := Some (jt\<lparr>rjt_drop := Some (xs @ [e])\<rparr>)\<rparr>,
                    snd s)))"

text \<open>\<^verbatim>\<open>handleRelationTypeChange\<close>, branch for branch as above, over the wider diff.\<close>

definition raw_handleRelationTypeChange ::
  "naming \<Rightarrow> relation \<Rightarrow> relation \<Rightarrow> string \<Rightarrow> raw_state \<Rightarrow> raw_outcome" where
  "raw_handleRelationTypeChange nm oldRel newRel tableName s0 =
     (let s = raw_init_junctionTables (raw_init_crossTableOperations s0);
          oldType = rel_type oldRel;
          newType = rel_type newRel
      in
      if (oldType = ''many-to-one'' \<or> oldType = ''one-to-one'') \<and> newType = ''many-to-many''
      then
        raw_andThen (raw_push_columns_delete (dropFkEntry nm oldRel) s)
          (raw_push_junction_create (createJunctionEntry nm newRel tableName))
      else if oldType = ''many-to-many''
              \<and> (newType = ''many-to-one'' \<or> newType = ''one-to-one'')
      then
        raw_andThen
          (raw_push_junction_drop
             \<lparr>jd_tableName = junctionTableName oldRel,
              jd_reason = ''Relation type changed from M2M to M2O/O2O''\<rparr> s)
          (raw_push_columns_create (createFkEntry nm newRel))
      else if oldType = ''one-to-many'' \<and> newType = ''many-to-many''
      then
        (case inversePropertyName oldRel of
           None \<Rightarrow> Inl (MissingInverse (propertyName oldRel), s)
         | Some ipn \<Rightarrow>
             if ipn = [] then Inl (MissingInverse (propertyName oldRel), s)
             else
               raw_andThen
                 (raw_push_crossTableOperations (dropInverseFkEntry nm oldRel ipn) s)
                 (raw_push_junction_create (createJunctionEntry nm newRel tableName)))
      else if oldType = ''many-to-many'' \<and> newType = ''one-to-many''
      then
        raw_andThen
          (raw_push_junction_drop
             \<lparr>jd_tableName = junctionTableName oldRel,
              jd_reason = ''Relation type changed from M2M to O2M''\<rparr> s)
          (\<lambda>s1.
             case inversePropertyName newRel of
               None \<Rightarrow> Inl (MissingInverse (propertyName newRel), s1)
             | Some ipn \<Rightarrow>
                 if ipn = [] then Inl (MissingInverse (propertyName newRel), s1)
                 else raw_push_crossTableOperations
                        (createInverseFkEntry nm newRel ipn tableName) s1)
      else if (oldType = ''many-to-one'' \<or> oldType = ''one-to-one'')
              \<and> newType = ''one-to-many''
      then
        raw_andThen (raw_push_columns_delete (dropFkEntry nm oldRel) s)
          (\<lambda>s1.
             case inversePropertyName newRel of
               None \<Rightarrow> Inl (MissingInverse (propertyName newRel), s1)
             | Some ipn \<Rightarrow>
                 if ipn = [] then Inl (MissingInverse (propertyName newRel), s1)
                 else raw_push_crossTableOperations
                        (createInverseFkEntry nm newRel ipn tableName) s1)
      else if oldType = ''one-to-many''
              \<and> (newType = ''many-to-one'' \<or> newType = ''one-to-one'')
      then
        (case inversePropertyName oldRel of
           None \<Rightarrow> Inl (MissingInverse (propertyName oldRel), s)
         | Some ipn \<Rightarrow>
             if ipn = [] then Inl (MissingInverse (propertyName oldRel), s)
             else
               raw_andThen
                 (raw_push_crossTableOperations (dropInverseFkEntry nm oldRel ipn) s)
                 (raw_push_columns_create (createFkEntry nm newRel)))
      else if (oldType = ''many-to-one'' \<and> newType = ''one-to-one'')
              \<or> (oldType = ''one-to-one'' \<and> newType = ''many-to-one'')
      then Inr s
      else Inr (raw_warn (WarnUnhandledTypeChange oldType newType) s))"

text \<open>A diff of the model above, seen as a diff of the wider shape.\<close>

definition raw_of_diff :: "diff \<Rightarrow> raw_diff" where
  "raw_of_diff d =
     \<lparr>raw_columns = columns d,
      raw_crossTableOperations = crossTableOperations d,
      raw_junctionTables =
        (case junctionTables d of
           None \<Rightarrow> None
         | Some jt \<Rightarrow>
             Some \<lparr>rjt_create = Some (jt_create jt), rjt_drop = Some (jt_drop jt),
                   rjt_update = Some (jt_update jt)\<rparr>)\<rparr>"

definition raw_of_state :: "state \<Rightarrow> raw_state" where
  "raw_of_state s = (raw_of_diff (fst s), snd s)"

definition raw_of_outcome :: "outcome \<Rightarrow> raw_outcome" where
  "raw_of_outcome r =
     (case r of Inl (e, s) \<Rightarrow> Inl (e, raw_of_state s) | Inr s \<Rightarrow> Inr (raw_of_state s))"




text \<open>The outcome on the wider diff is the image of the outcome of the model above.\<close>

definition agrees :: "raw_outcome \<Rightarrow> outcome \<Rightarrow> bool" where
  "agrees r' r = (r' = raw_of_outcome r)"

section \<open>Reading the diff\<close>

text \<open>The six operation lists of a diff; a missing container holds no entry.\<close>

definition columnsCreate :: "diff \<Rightarrow> column_create list" where
  "columnsCreate d =
     (case columns d of
        None \<Rightarrow> []
      | Some c \<Rightarrow> (case col_create c of None \<Rightarrow> [] | Some xs \<Rightarrow> xs))"

definition columnsDelete :: "diff \<Rightarrow> column_delete list" where
  "columnsDelete d =
     (case columns d of
        None \<Rightarrow> []
      | Some c \<Rightarrow> (case col_delete c of None \<Rightarrow> [] | Some xs \<Rightarrow> xs))"

definition crossOps :: "diff \<Rightarrow> cross_table_operation list" where
  "crossOps d = (case crossTableOperations d of None \<Rightarrow> [] | Some xs \<Rightarrow> xs)"

definition junctionCreate :: "diff \<Rightarrow> junction_create list" where
  "junctionCreate d = (case junctionTables d of None \<Rightarrow> [] | Some jt \<Rightarrow> jt_create jt)"

definition junctionDrop :: "diff \<Rightarrow> junction_drop list" where
  "junctionDrop d = (case junctionTables d of None \<Rightarrow> [] | Some jt \<Rightarrow> jt_drop jt)"

definition junctionUpdate :: "diff \<Rightarrow> junction_update list" where
  "junctionUpdate d = (case junctionTables d of None \<Rightarrow> [] | Some jt \<Rightarrow> jt_update jt)"

text \<open>Whether the caller's diff has the array \<^verbatim>\<open>columns.create\<close>, \<^verbatim>\<open>columns.delete\<close>.\<close>

definition hasColumnsCreate :: "diff \<Rightarrow> bool" where
  "hasColumnsCreate d =
     (case columns d of None \<Rightarrow> False | Some c \<Rightarrow> col_create c \<noteq> None)"

definition hasColumnsDelete :: "diff \<Rightarrow> bool" where
  "hasColumnsDelete d =
     (case columns d of None \<Rightarrow> False | Some c \<Rightarrow> col_delete c \<noteq> None)"

text \<open>Both on-demand containers are present.\<close>

definition containersInitialized :: "state \<Rightarrow> bool" where
  "containersInitialized s =
     (crossTableOperations (fst s) \<noteq> None \<and> junctionTables (fst s) \<noteq> None)"

text \<open>
  Which of \<^verbatim>\<open>diff.columns\<close>, \<^verbatim>\<open>columns.create\<close> and \<^verbatim>\<open>columns.delete\<close> are present.
\<close>

definition columnsShape :: "diff \<Rightarrow> (bool \<times> bool) option" where
  "columnsShape d =
     (case columns d of
        None \<Rightarrow> None
      | Some c \<Rightarrow> Some (col_create c \<noteq> None, col_delete c \<noteq> None))"

text \<open>A run that returns, or throws something other than a TypeError.\<close>

definition noTypeError :: "outcome \<Rightarrow> bool" where
  "noTypeError r = (case r of Inl (e, s) \<Rightarrow> e \<noteq> TypeError | Inr s \<Rightarrow> True)"

definition columnsReady :: "state \<Rightarrow> bool" where
  "columnsReady s = (hasColumnsCreate (fst s) \<and> hasColumnsDelete (fst s))"

definition fullyReady :: "state \<Rightarrow> bool" where
  "fullyReady s = (columnsReady s \<and> containersInitialized s)"

text \<open>A run without TypeError that leaves a state satisfying \<open>Q\<close>.\<close>

definition runsClean :: "(state \<Rightarrow> bool) \<Rightarrow> outcome \<Rightarrow> bool" where
  "runsClean Q r = (noTypeError r \<and> Q (final_state r))"

text \<open>A run that leaves the columns of the diff with the shape \<open>sh\<close>.\<close>

definition keepsShape :: "(bool \<times> bool) option \<Rightarrow> outcome \<Rightarrow> bool" where
  "keepsShape sh r = (columnsShape (fst (final_state r)) = sh)"

section \<open>Sample inputs\<close>

text \<open>A naming scheme, a relation and two diffs for the concrete instances below.\<close>

definition sampleNaming :: naming where
  "sampleNaming =
     \<lparr>getForeignKeyColumnName = (\<lambda>p. p @ ''Id''),
      getJunctionTableName = (\<lambda>t p tt. t @ ''_'' @ p),
      getJunctionColumnNames = (\<lambda>t p tt. (t @ ''Id'', p @ ''Id''))\<rparr>"

definition sampleRelation :: relation where
  "sampleRelation =
     \<lparr>rel_id = 1,
      propertyName = ''author'',
      rel_type = ''many-to-one'',
      sourceTableName = None,
      targetTable = JTableRef (Some 7),
      targetTableName = JName ''user'',
      inversePropertyName = None,
      foreignKeyColumn = None,
      isNullable = None,
      junctionTableName = None\<rparr>"

definition sampleColumns :: diff_columns where
  "sampleColumns = \<lparr>col_create = Some [], col_delete = Some []\<rparr>"

definition freshDiff :: diff where
  "freshDiff =
     \<lparr>columns = Some sampleColumns, crossTableOperations = None, junctionTables = None\<rparr>"

definition bareDiff :: diff where
  "bareDiff = \<lparr>columns = None, crossTableOperations = None, junctionTables = None\<rparr>"

text \<open>A relation whose target is the reference object \<^verbatim>\<open>{ id: 0 }\<close>.\<close>

definition zeroIdRelation :: relation where
  "zeroIdRelation =
     \<lparr>rel_id = 1,
      propertyName = ''author'',
      rel_type = ''many-to-one'',
      sourceTableName = None,
      targetTable = JTableRef (Some 0),
      targetTableName = JUndefined,
      inversePropertyName = None,
      foreignKeyColumn = None,
      isNullable = None,
      junctionTableName = None\<rparr>"


section \<open>Effects of the mutations on the six lists\<close>

lemma init_crossTableOperations_fields [simp]:
  "columns (fst (init_crossTableOperations s)) = columns (fst s)"
  "junctionTables (fst (init_crossTableOperations s)) = junctionTables (fst s)"
  "crossTableOperations (fst (init_crossTableOperations s)) = Some (crossOps (fst s))"
  "snd (init_crossTableOperations s) = snd s"
  by (simp_all add: init_crossTableOperations_def crossOps_def split: option.splits)

lemma init_junctionTables_fields [simp]:
  "columns (fst (init_junctionTables s)) = columns (fst s)"
  "crossTableOperations (fst (init_junctionTables s)) = crossTableOperations (fst s)"
  "junctionTables (fst (init_junctionTables s))
     = Some \<lparr>jt_create = junctionCreate (fst s), jt_drop = junctionDrop (fst s),
             jt_update = junctionUpdate (fst s)\<rparr>"
  "snd (init_junctionTables s) = snd s"
  by (simp_all add: init_junctionTables_def junctionCreate_def junctionDrop_def
      junctionUpdate_def split: option.splits)

lemma columns_lists_init [simp]:
  "columnsCreate (fst (init_crossTableOperations s)) = columnsCreate (fst s)"
  "columnsCreate (fst (init_junctionTables s)) = columnsCreate (fst s)"
  "columnsDelete (fst (init_crossTableOperations s)) = columnsDelete (fst s)"
  "columnsDelete (fst (init_junctionTables s)) = columnsDelete (fst s)"
  by (simp_all add: columnsCreate_def columnsDelete_def)

lemma crossOps_init [simp]:
  "crossOps (fst (init_crossTableOperations s)) = crossOps (fst s)"
  "crossOps (fst (init_junctionTables s)) = crossOps (fst s)"
  by (simp_all add: crossOps_def)

lemma junction_lists_init [simp]:
  "junctionCreate (fst (init_crossTableOperations s)) = junctionCreate (fst s)"
  "junctionCreate (fst (init_junctionTables s)) = junctionCreate (fst s)"
  "junctionDrop (fst (init_crossTableOperations s)) = junctionDrop (fst s)"
  "junctionDrop (fst (init_junctionTables s)) = junctionDrop (fst s)"
  "junctionUpdate (fst (init_crossTableOperations s)) = junctionUpdate (fst s)"
  "junctionUpdate (fst (init_junctionTables s)) = junctionUpdate (fst s)"
  by (simp_all add: junctionCreate_def junctionDrop_def junctionUpdate_def)


section \<open>Facts about the sample inputs\<close>

lemma freshDiff_lists:
  "columnsCreate freshDiff = []" "columnsDelete freshDiff = []"
  "crossOps freshDiff = []" "junctionCreate freshDiff = []" "junctionDrop freshDiff = []"
  "junctionUpdate freshDiff = []"
  by (simp_all add: freshDiff_def sampleColumns_def columnsCreate_def columnsDelete_def
      crossOps_def junctionCreate_def junctionDrop_def junctionUpdate_def)

lemma freshDiff_fields:
  "columns freshDiff = Some sampleColumns" "crossTableOperations freshDiff = None"
  "junctionTables freshDiff = None" "col_create sampleColumns = Some []"
  "col_delete sampleColumns = Some []"
  by (simp_all add: freshDiff_def sampleColumns_def)

lemma sampleRelation_fields:
  "rel_id sampleRelation = 1" "propertyName sampleRelation = ''author''"
  "rel_type sampleRelation = ''many-to-one''" "sourceTableName sampleRelation = None"
  "targetTable sampleRelation = JTableRef (Some 7)"
  "targetTableName sampleRelation = JName ''user''"
  "inversePropertyName sampleRelation = None" "foreignKeyColumn sampleRelation = None"
  "isNullable sampleRelation = None" "junctionTableName sampleRelation = None"
  by (simp_all add: sampleRelation_def)

lemma sampleNaming_fields:
  "getForeignKeyColumnName sampleNaming p = p @ ''Id''"
  "getJunctionTableName sampleNaming t p tt = t @ ''_'' @ p"
  "getJunctionColumnNames sampleNaming t p tt = (t @ ''Id'', p @ ''Id'')"
  by (simp_all add: sampleNaming_def)

section \<open>Type changes\<close>

lemma typeChange_m2o_to_o2o:
  "rel_type oldRel = ''many-to-one'' \<Longrightarrow> rel_type newRel = ''one-to-one'' \<Longrightarrow>
   handleRelationTypeChange nm oldRel newRel tableName s
     = Inr (init_junctionTables (init_crossTableOperations s))"
  by (simp add: handleRelationTypeChange_def)

lemma typeChange_o2o_to_m2o:
  "rel_type oldRel = ''one-to-one'' \<Longrightarrow> rel_type newRel = ''many-to-one'' \<Longrightarrow>
   handleRelationTypeChange nm oldRel newRel tableName s
     = Inr (init_junctionTables (init_crossTableOperations s))"
  by (simp add: handleRelationTypeChange_def)

text \<open>
  C6. A type change between many-to-one and one-to-one, in either direction, succeeds and
  appends nothing: each of the six operation lists of the diff holds the entries it held
  before, and no warning is recorded.
\<close>

theorem typeChange_m2o_o2o_emits_nothing:
  assumes "(rel_type oldRel = ''many-to-one'' \<and> rel_type newRel = ''one-to-one'')
           \<or> (rel_type oldRel = ''one-to-one'' \<and> rel_type newRel = ''many-to-one'')"
  shows "\<exists>s'. handleRelationTypeChange nm oldRel newRel tableName s = Inr s'
           \<and> columnsCreate (fst s') = columnsCreate (fst s)
           \<and> columnsDelete (fst s') = columnsDelete (fst s)
           \<and> crossOps (fst s') = crossOps (fst s)
           \<and> junctionCreate (fst s') = junctionCreate (fst s)
           \<and> junctionDrop (fst s') = junctionDrop (fst s)
           \<and> junctionUpdate (fst s') = junctionUpdate (fst s)
           \<and> snd s' = snd s"
proof -
  have "handleRelationTypeChange nm oldRel newRel tableName s
          = Inr (init_junctionTables (init_crossTableOperations s))"
    using assms typeChange_m2o_to_o2o typeChange_o2o_to_m2o by blast
  then show ?thesis
    by simp
qed

theorem typeChange_m2o_o2o_emits_nothing_witness:
  "rel_type sampleRelation = ''many-to-one''
   \<and> rel_type (sampleRelation\<lparr>rel_type := ''one-to-one''\<rparr>) = ''one-to-one''
   \<and> (\<exists>s'. handleRelationTypeChange sampleNaming sampleRelation
               (sampleRelation\<lparr>rel_type := ''one-to-one''\<rparr>) ''post'' (freshDiff, [])
             = Inr s'
           \<and> columnsCreate (fst s') = []
           \<and> columnsDelete (fst s') = []
           \<and> crossOps (fst s') = []
           \<and> junctionCreate (fst s') = []
           \<and> junctionDrop (fst s') = []
           \<and> junctionUpdate (fst s') = []
           \<and> snd s' = [])"
proof -
  have h: "(rel_type sampleRelation = ''many-to-one''
            \<and> rel_type (sampleRelation\<lparr>rel_type := ''one-to-one''\<rparr>) = ''one-to-one'')
           \<or> (rel_type sampleRelation = ''one-to-one''
            \<and> rel_type (sampleRelation\<lparr>rel_type := ''one-to-one''\<rparr>) = ''many-to-one'')"
    by (simp add: sampleRelation_fields)
  from typeChange_m2o_o2o_emits_nothing [OF h, of sampleNaming "''post''" "(freshDiff, [])"]
  show ?thesis
    by (simp add: freshDiff_lists sampleRelation_fields)
qed




section \<open>Created relations\<close>

lemma handleCreatedRelations_append:
  "handleCreatedRelations nm newRelations (xs @ ys) tableName s
     = andThen (handleCreatedRelations nm newRelations xs tableName s)
         (handleCreatedRelations nm newRelations ys tableName)"
  by (induction xs arbitrary: s) (auto simp: andThen_def split: option.splits sum.splits)

lemma createdRelation_o2m_no_inverse:
  "rel_type rel = ''one-to-many'' \<Longrightarrow> \<not> truthy_string (inversePropertyName rel) \<Longrightarrow>
   createdRelation nm rel tableName s
     = Inr (fst s, snd s @ [WarnMissingInverse (propertyName rel)])"
  by (cases "inversePropertyName rel") (simp_all add: createdRelation_def warn_def)

text \<open>
  C4. A created one-to-many relation without \<^verbatim>\<open>inversePropertyName\<close> (missing or empty)
  leaves the diff exactly as it was, throws nothing and records one warning; the loop over
  the created ids goes on with the ids after it, from that same diff.
\<close>

theorem created_o2m_without_inverse_is_skipped:
  assumes "find (\<lambda>r. rel_id r = relId) newRelations = Some rel"
    and "rel_type rel = ''one-to-many''"
    and "\<not> truthy_string (inversePropertyName rel)"
  shows "createdRelation nm rel tableName s
           = Inr (fst s, snd s @ [WarnMissingInverse (propertyName rel)])
         \<and> handleCreatedRelations nm newRelations (idsBefore @ relId # idsAfter) tableName s
           = andThen (handleCreatedRelations nm newRelations idsBefore tableName s)
               (\<lambda>s1. handleCreatedRelations nm newRelations idsAfter tableName
                        (fst s1, snd s1 @ [WarnMissingInverse (propertyName rel)]))"
proof -
  have step: "\<And>s. createdRelation nm rel tableName s
           = Inr (fst s, snd s @ [WarnMissingInverse (propertyName rel)])"
    using assms(2,3) by (rule createdRelation_o2m_no_inverse)
  have tail: "handleCreatedRelations nm newRelations (relId # idsAfter) tableName
          = (\<lambda>s1. handleCreatedRelations nm newRelations idsAfter tableName
              (fst s1, snd s1 @ [WarnMissingInverse (propertyName rel)]))"
  proof (rule ext)
    fix s1
    show "handleCreatedRelations nm newRelations (relId # idsAfter) tableName s1
          = handleCreatedRelations nm newRelations idsAfter tableName
              (fst s1, snd s1 @ [WarnMissingInverse (propertyName rel)])"
      using assms(1) by (simp add: step)
  qed
  show ?thesis
    by (simp only: step handleCreatedRelations_append tail simp_thms)
qed

theorem created_o2m_without_inverse_is_skipped_witness:
  "find (\<lambda>r. rel_id r = 1) [sampleRelation\<lparr>rel_type := ''one-to-many''\<rparr>]
     = Some (sampleRelation\<lparr>rel_type := ''one-to-many''\<rparr>)
   \<and> \<not> truthy_string (inversePropertyName (sampleRelation\<lparr>rel_type := ''one-to-many''\<rparr>))
   \<and> handleCreatedRelations sampleNaming [sampleRelation\<lparr>rel_type := ''one-to-many''\<rparr>]
        [1] ''post'' (freshDiff, [])
       = Inr (freshDiff, [WarnMissingInverse ''author''])"
proof -
  let ?rel = "sampleRelation\<lparr>rel_type := ''one-to-many''\<rparr>"
  have h1: "find (\<lambda>r. rel_id r = 1) [?rel] = Some ?rel"
    by (simp add: sampleRelation_fields)
  have h2: "rel_type ?rel = ''one-to-many''"
    by simp
  have h3: "\<not> truthy_string (inversePropertyName ?rel)"
    by (simp add: sampleRelation_fields)
  from created_o2m_without_inverse_is_skipped [OF h1 h2 h3, where nm = sampleNaming
      and idsBefore = "[]" and idsAfter = "[]" and tableName = "''post''"
      and s = "(freshDiff, [])", THEN conjunct2]
  show ?thesis
    using h1 h3 by (simp add: andThen_def sampleRelation_fields)
qed

lemma createdRelation_m2m:
  "rel_type rel = ''many-to-many'' \<Longrightarrow>
   createdRelation nm rel tableName s
     = push_junction_create (createJunctionEntry nm rel tableName) (init_junctionTables s)"
  by (simp add: createdRelation_def)

lemma push_junction_create_init:
  "push_junction_create e (init_junctionTables s)
     = Inr ((fst s)\<lparr>junctionTables :=
               Some \<lparr>jt_create = junctionCreate (fst s) @ [e],
                     jt_drop = junctionDrop (fst s),
                     jt_update = junctionUpdate (fst s)\<rparr>\<rparr>, snd s)"
  by (simp add: push_junction_create_def init_junctionTables_def junctionCreate_def
      junctionDrop_def junctionUpdate_def split: option.splits)

lemma createdRelation_m2m_sourceTableName:
  "rel_type rel = ''many-to-many'' \<Longrightarrow>
   createdRelation nm (rel\<lparr>sourceTableName := x\<rparr>) tableName s
     = createdRelation nm rel tableName s"
  by (simp add: createdRelation_def createJunctionEntry_def)

lemma analyze_single_created_m2m:
  assumes "rel_type rel = ''many-to-many''" and "truthy_target (targetTableName rel)"
    and "targetTable rel \<noteq> JNull"
  shows "analyzeRelationChanges nm lookup [] [rel] tableName s
           = createdRelation nm rel tableName s"
proof -
  obtain i where i: "targetTableIdOf rel = Inr i"
    using assms(3) by (cases "targetTable rel") simp_all
  have r: "\<And>m. resolveRelation m tableName rel
        = Inr (rel\<lparr>sourceTableName :=
                 (if truthy_string (sourceTableName rel) then sourceTableName rel
                  else Some tableName)\<rparr>)"
    using i assms(2) by (simp add: resolveRelation_def del: targetTableIdOf.simps)
  show ?thesis
    using assms(1)
    by (simp add: analyzeRelationChanges_def targetTableIds_def i r Let_def
        deletedRelIds_def createdRelIds_def relMap_def new_Map_def Map_has_def
        Map_get_def andThen_def createdRelation_m2m_sourceTableName
        del: targetTableIdOf.simps split: sum.splits)
qed

text \<open>
  C5. A many-to-many relation with \<^verbatim>\<open>propertyName\<close> \<^verbatim>\<open>"tags"\<close> whose target table name is
  \<^verbatim>\<open>"Tag"\<close>, created on table \<^verbatim>\<open>"Post"\<close>: the creation planner succeeds and appends exactly
  one \<^verbatim>\<open>junctionTables.create\<close> entry, with \<^verbatim>\<open>sourceTable = "Post"\<close>,
  \<^verbatim>\<open>targetTable = "Tag"\<close>, and the table and column names the naming helpers give for
  \<^verbatim>\<open>("Post", "tags", "Tag")\<close>; nothing else in the diff changes. The whole analysis of
  no old relation and this one new relation gives the same diff.
\<close>

theorem created_m2m_post_tags_tag:
  assumes "rel_type rel = ''many-to-many''"
    and "propertyName rel = ''tags''"
    and "targetTableName rel = JName ''Tag''"
    and "targetTable rel \<noteq> JNull"
  shows "\<exists>s'. createdRelation nm rel ''Post'' s = Inr s'
           \<and> handleCreatedRelations nm [rel] [rel_id rel] ''Post'' s = Inr s'
           \<and> analyzeRelationChanges nm lookup [] [rel] ''Post'' s = Inr s'
           \<and> junctionCreate (fst s')
               = junctionCreate (fst s)
                 @ [\<lparr>jc_tableName = getJunctionTableName nm ''Post'' ''tags'' (JName ''Tag''),
                     jc_sourceTable = ''Post'',
                     jc_targetTable = JName ''Tag'',
                     jc_sourceColumn =
                       fst (getJunctionColumnNames nm ''Post'' ''tags'' (JName ''Tag'')),
                     jc_targetColumn =
                       snd (getJunctionColumnNames nm ''Post'' ''tags'' (JName ''Tag''))\<rparr>]
           \<and> junctionDrop (fst s') = junctionDrop (fst s)
           \<and> junctionUpdate (fst s') = junctionUpdate (fst s)
           \<and> columns (fst s') = columns (fst s)
           \<and> crossTableOperations (fst s') = crossTableOperations (fst s)
           \<and> snd s' = snd s"
proof -
  have c: "createdRelation nm rel ''Post'' s
          = push_junction_create (createJunctionEntry nm rel ''Post'') (init_junctionTables s)"
    using assms(1) by (rule createdRelation_m2m)
  have a: "analyzeRelationChanges nm lookup [] [rel] ''Post'' s
          = createdRelation nm rel ''Post'' s"
    using assms(1,3,4) by (simp add: analyze_single_created_m2m)
  show ?thesis
    unfolding a
    using assms(2,3)
    by (simp add: c push_junction_create_init createJunctionEntry_def junctionCreate_def
        junctionDrop_def junctionUpdate_def)
qed

theorem created_m2m_post_tags_tag_witness:
  "targetTable sampleRelation \<noteq> JNull
   \<and> (\<exists>s'. createdRelation sampleNaming
               (sampleRelation\<lparr>rel_type := ''many-to-many'', propertyName := ''tags'',
                                targetTableName := JName ''Tag''\<rparr>) ''Post'' (freshDiff, [])
             = Inr s'
           \<and> handleCreatedRelations sampleNaming
               [sampleRelation\<lparr>rel_type := ''many-to-many'', propertyName := ''tags'',
                                targetTableName := JName ''Tag''\<rparr>] [1] ''Post''
               (freshDiff, [])
             = Inr s'
           \<and> analyzeRelationChanges sampleNaming (\<lambda>ids. [(7, ''Tag'')]) []
               [sampleRelation\<lparr>rel_type := ''many-to-many'', propertyName := ''tags'',
                                targetTableName := JName ''Tag''\<rparr>] ''Post'' (freshDiff, [])
             = Inr s'
           \<and> junctionCreate (fst s')
               = [\<lparr>jc_tableName = ''Post_tags'', jc_sourceTable = ''Post'',
                   jc_targetTable = JName ''Tag'', jc_sourceColumn = ''PostId'',
                   jc_targetColumn = ''tagsId''\<rparr>]
           \<and> junctionDrop (fst s') = []
           \<and> junctionUpdate (fst s') = []
           \<and> columns (fst s') = Some sampleColumns
           \<and> crossTableOperations (fst s') = None
           \<and> snd s' = [])"
proof -
  let ?rel = "sampleRelation\<lparr>rel_type := ''many-to-many'', propertyName := ''tags'',
                             targetTableName := JName ''Tag''\<rparr>"
  have h1: "rel_type ?rel = ''many-to-many''" by simp
  have h2: "propertyName ?rel = ''tags''" by simp
  have h3: "targetTableName ?rel = JName ''Tag''" by simp
  have h4: "targetTable ?rel \<noteq> JNull" by (simp add: sampleRelation_fields)
  from created_m2m_post_tags_tag [OF h1 h2 h3 h4, where nm = sampleNaming
      and s = "(freshDiff, [])" and lookup = "\<lambda>ids. [(7, ''Tag'')]"]
  show ?thesis
    by (simp add: freshDiff_lists freshDiff_fields sampleNaming_fields
        sampleRelation_fields)
qed

section \<open>The classifier\<close>

lemma map_fst_Map_set:
  "map fst (Map_set k v m) = (if k \<in> set (map fst m) then map fst m else map fst m @ [k])"
proof (induction m)
  case Nil
  then show ?case by simp
next
  case (Cons p m)
  obtain k' v' where p: "p = (k', v')" by (cases p)
  show ?case
    unfolding p using Cons.IH by (cases "k' = k") simp_all
qed

lemma Map_set_keys: "set (map fst (Map_set k v m)) = insert k (set (map fst m))"
  by (auto simp: map_fst_Map_set)

lemma Map_set_distinct: "distinct (map fst m) \<Longrightarrow> distinct (map fst (Map_set k v m))"
  by (simp add: map_fst_Map_set)

lemma Map_set_fresh: "k \<notin> set (map fst m) \<Longrightarrow> Map_set k v m = m @ [(k, v)]"
  by (induction m) auto

lemma fold_Map_set_keys:
  "set (map fst (fold (\<lambda>(k, v) m. Map_set k v m) es acc))
     = set (map fst es) \<union> set (map fst acc)"
proof (induction es arbitrary: acc)
  case Nil
  then show ?case by simp
next
  case (Cons e es)
  obtain k v where e: "e = (k, v)" by (cases e)
  show ?case
    unfolding e using Cons.IH [of "Map_set k v acc"]
    by (simp add: Map_set_keys del: set_map)
qed

lemma fold_Map_set_distinct:
  "distinct (map fst acc) \<Longrightarrow> distinct (map fst (fold (\<lambda>(k, v) m. Map_set k v m) es acc))"
proof (induction es arbitrary: acc)
  case Nil
  then show ?case by simp
next
  case (Cons e es)
  obtain k v where e: "e = (k, v)" by (cases e)
  show ?case
    unfolding e using Cons.IH [of "Map_set k v acc"] Cons.prems
    by (simp add: Map_set_distinct)
qed

lemma fold_Map_set_fresh:
  "distinct (map fst (acc @ es)) \<Longrightarrow> fold (\<lambda>(k, v) m. Map_set k v m) es acc = acc @ es"
proof (induction es arbitrary: acc)
  case Nil
  then show ?case by simp
next
  case (Cons e es)
  obtain k v where e: "e = (k, v)" by (cases e)
  have fresh: "k \<notin> set (map fst acc)" using Cons.prems e by auto
  have "distinct (map fst ((acc @ [(k, v)]) @ es))" using Cons.prems e by simp
  then have "fold (\<lambda>(k, v) m. Map_set k v m) es (acc @ [(k, v)]) = (acc @ [(k, v)]) @ es"
    by (rule Cons.IH)
  then show ?case using fresh e by (simp add: Map_set_fresh)
qed

lemma relMap_keys: "set (map fst (relMap rels)) = rel_id ` set rels"
  by (simp add: relMap_def new_Map_def fold_Map_set_keys comp_def del: set_map)
    (simp add: image_image)

lemma relMap_distinct: "distinct (map fst (relMap rels))"
  by (simp add: relMap_def new_Map_def fold_Map_set_distinct)

lemma relMap_unique_ids:
  "distinct (map rel_id rels) \<Longrightarrow> relMap rels = map (\<lambda>r. (rel_id r, r)) rels"
  using fold_Map_set_fresh [of "[]" "map (\<lambda>r. (rel_id r, r)) rels"]
  by (simp add: relMap_def new_Map_def comp_def)

lemma Map_has_relMap: "Map_has (relMap rels) k = (k \<in> rel_id ` set rels)"
  using relMap_keys [of rels] by (simp add: Map_has_def map_of_eq_None_iff)

lemma Map_get_relMap_None: "(Map_get (relMap rels) k \<noteq> None) = (k \<in> rel_id ` set rels)"
  using relMap_keys [of rels] by (simp add: Map_get_def map_of_eq_None_iff)

lemma set_deletedRelIds:
  "set (deletedRelIds olds news) = rel_id ` set olds - rel_id ` set news"
  by (auto simp: deletedRelIds_def Map_has_relMap)

lemma set_createdRelIds:
  "set (createdRelIds olds news) = rel_id ` set news - rel_id ` set olds"
  by (auto simp: createdRelIds_def Map_has_relMap)

lemma relMap_entry_iff: "(\<exists>r. (k, r) \<in> set (relMap rels)) = (k \<in> rel_id ` set rels)"
proof -
  have "(\<exists>r. (k, r) \<in> set (relMap rels)) = (k \<in> set (map fst (relMap rels)))"
    by force
  then show ?thesis
    unfolding relMap_keys .
qed

lemma set_matchedRelIds:
  "set (matchedRelIds olds news) = rel_id ` set olds \<inter> rel_id ` set news"
proof -
  have "set (matchedRelIds olds news)
          = {k. (\<exists>r. (k, r) \<in> set (relMap news)) \<and> Map_get (relMap olds) k \<noteq> None}"
    unfolding matchedRelIds_def by force
  then show ?thesis
    unfolding relMap_entry_iff Map_get_relMap_None by blast
qed

lemma distinct_matchedRelIds: "distinct (matchedRelIds olds news)"
  unfolding matchedRelIds_def
  using relMap_distinct [of news] by (simp add: distinct_map_filter)

lemma distinct_deletedRelIds:
  "distinct (map rel_id olds) \<Longrightarrow> distinct (deletedRelIds olds news)"
  by (simp add: deletedRelIds_def distinct_map_filter)

lemma distinct_createdRelIds:
  "distinct (map rel_id news) \<Longrightarrow> distinct (createdRelIds olds news)"
  by (simp add: createdRelIds_def distinct_map_filter)

text \<open>
  C2. With ids unique within each list, the ids the classifier calls deleted are those of
  the old list that are absent from the new one, the created ids those of the new list
  absent from the old one, and the matched ids (at which the update loop finds an old
  relation) those in both lists. The three groups are pairwise disjoint, their union is the
  set of all ids of the two lists, and no id occurs twice in them.
\<close>

theorem classifier_partition:
  assumes "distinct (map rel_id oldRelations)" and "distinct (map rel_id newRelations)"
  shows "set (deletedRelIds oldRelations newRelations)
           = rel_id ` set oldRelations - rel_id ` set newRelations
         \<and> set (createdRelIds oldRelations newRelations)
           = rel_id ` set newRelations - rel_id ` set oldRelations
         \<and> set (matchedRelIds oldRelations newRelations)
           = rel_id ` set oldRelations \<inter> rel_id ` set newRelations
         \<and> set (deletedRelIds oldRelations newRelations)
             \<inter> set (createdRelIds oldRelations newRelations) = {}
         \<and> set (deletedRelIds oldRelations newRelations)
             \<inter> set (matchedRelIds oldRelations newRelations) = {}
         \<and> set (createdRelIds oldRelations newRelations)
             \<inter> set (matchedRelIds oldRelations newRelations) = {}
         \<and> set (deletedRelIds oldRelations newRelations)
             \<union> set (createdRelIds oldRelations newRelations)
             \<union> set (matchedRelIds oldRelations newRelations)
           = rel_id ` set oldRelations \<union> rel_id ` set newRelations
         \<and> distinct (deletedRelIds oldRelations newRelations
                      @ createdRelIds oldRelations newRelations
                      @ matchedRelIds oldRelations newRelations)"
proof -
  note sets = set_deletedRelIds set_createdRelIds set_matchedRelIds
  have d: "distinct (deletedRelIds oldRelations newRelations
                      @ createdRelIds oldRelations newRelations
                      @ matchedRelIds oldRelations newRelations)"
    using assms
    by (auto simp: distinct_deletedRelIds distinct_createdRelIds distinct_matchedRelIds sets)
  show ?thesis
    unfolding sets using d by blast
qed

theorem classifier_partition_witness:
  "distinct (map rel_id [sampleRelation, sampleRelation\<lparr>rel_id := 2\<rparr>])
   \<and> distinct (map rel_id [sampleRelation\<lparr>rel_id := 2\<rparr>, sampleRelation\<lparr>rel_id := 3\<rparr>])
   \<and> set (deletedRelIds [sampleRelation, sampleRelation\<lparr>rel_id := 2\<rparr>]
             [sampleRelation\<lparr>rel_id := 2\<rparr>, sampleRelation\<lparr>rel_id := 3\<rparr>]) = {1}
   \<and> set (createdRelIds [sampleRelation, sampleRelation\<lparr>rel_id := 2\<rparr>]
             [sampleRelation\<lparr>rel_id := 2\<rparr>, sampleRelation\<lparr>rel_id := 3\<rparr>]) = {3}
   \<and> set (matchedRelIds [sampleRelation, sampleRelation\<lparr>rel_id := 2\<rparr>]
             [sampleRelation\<lparr>rel_id := 2\<rparr>, sampleRelation\<lparr>rel_id := 3\<rparr>]) = {2}"
proof -
  let ?olds = "[sampleRelation, sampleRelation\<lparr>rel_id := 2\<rparr>]"
  let ?news = "[sampleRelation\<lparr>rel_id := 2\<rparr>, sampleRelation\<lparr>rel_id := 3\<rparr>]"
  have h1: "distinct (map rel_id ?olds)"
    by (simp add: sampleRelation_fields)
  have h2: "distinct (map rel_id ?news)"
    by simp
  from classifier_partition [OF h1 h2]
  show ?thesis
    using h1 h2 by (auto simp: sampleRelation_fields)
qed

lemma handleUpdatedRelations_matched_only:
  "handleUpdatedRelations nm oldRelMap newRelMap tableName s
     = handleUpdatedRelations nm oldRelMap
         (filter (\<lambda>(relId, newRel). Map_get oldRelMap relId \<noteq> None) newRelMap) tableName s"
  by (induction newRelMap arbitrary: s) (auto split: option.splits sum.splits)

section \<open>The fatal missing inverse name\<close>

lemma handleUpdatedRelations_append:
  "handleUpdatedRelations nm oldRelMap (xs @ ys) tableName s
     = andThen (handleUpdatedRelations nm oldRelMap xs tableName s)
         (handleUpdatedRelations nm oldRelMap ys tableName)"
  by (induction xs arbitrary: s) (auto simp: andThen_def split: option.splits sum.splits)

lemma typeChange_o2m_to_m2m_no_inverse:
  "rel_type oldRel = ''one-to-many'' \<Longrightarrow> rel_type newRel = ''many-to-many'' \<Longrightarrow>
   \<not> truthy_string (inversePropertyName oldRel) \<Longrightarrow>
   handleRelationTypeChange nm oldRel newRel tableName s
     = Inl (MissingInverse (propertyName oldRel),
            init_junctionTables (init_crossTableOperations s))"
  by (cases "inversePropertyName oldRel") (simp_all add: handleRelationTypeChange_def)

lemma updatedRelation_type_change:
  "rel_type oldRel \<noteq> rel_type newRel \<Longrightarrow>
   updatedRelation nm oldRel newRel tableName s
     = handleRelationTypeChange nm oldRel newRel tableName s"
  by (simp add: updatedRelation_def changes_def)

lemma andThen_always_throws: "\<exists>e s'. andThen r (\<lambda>s1. Inl (g s1)) = Inl (e, s')"
proof (cases r)
  case (Inl x)
  then show ?thesis by (cases x) (simp add: andThen_def)
next
  case (Inr s1)
  then show ?thesis by (cases "g s1") (simp add: andThen_def)
qed

lemma mapE_Inr_list_all2:
  "mapE f xs = Inr ys \<Longrightarrow> list_all2 (\<lambda>x y. f x = Inr y) xs ys"
  by (induction xs arbitrary: ys) (auto split: sum.splits)

lemma resolveRelation_keeps:
  "resolveRelation m tableName rel = Inr rel' \<Longrightarrow>
   rel_id rel' = rel_id rel \<and> rel_type rel' = rel_type rel
   \<and> propertyName rel' = propertyName rel
   \<and> inversePropertyName rel' = inversePropertyName rel
   \<and> foreignKeyColumn rel' = foreignKeyColumn rel
   \<and> isNullable rel' = isNullable rel
   \<and> junctionTableName rel' = junctionTableName rel
   \<and> targetTable rel' = targetTable rel"
  by (auto simp: resolveRelation_def simp del: targetTableIdOf.simps split: sum.splits)

lemma mapE_resolve_ids:
  "mapE (resolveRelation m tableName) rels = Inr rels' \<Longrightarrow>
   map rel_id rels' = map rel_id rels"
proof (induction rels arbitrary: rels')
  case Nil
  then show ?case by simp
next
  case (Cons r rs)
  then show ?case
    by (auto split: sum.splits dest: resolveRelation_keeps)
qed

lemma mapE_resolve_member:
  "mapE (resolveRelation m tableName) rels = Inr rels' \<Longrightarrow> rel \<in> set rels \<Longrightarrow>
   \<exists>rel' \<in> set rels'. resolveRelation m tableName rel = Inr rel'"
proof (induction rels arbitrary: rels')
  case Nil
  then show ?case by simp
next
  case (Cons r rs)
  then show ?case
    by (auto split: sum.splits)
qed

lemma Map_get_relMap_unique:
  "distinct (map rel_id rels) \<Longrightarrow> rel \<in> set rels \<Longrightarrow>
   Map_get (relMap rels) (rel_id rel) = Some rel"
proof -
  assume d: "distinct (map rel_id rels)" and r: "rel \<in> set rels"
  have m: "relMap rels = map (\<lambda>r. (rel_id r, r)) rels"
    using d by (rule relMap_unique_ids)
  have "distinct (map fst (relMap rels))" by (rule relMap_distinct)
  moreover have "(rel_id rel, rel) \<in> set (relMap rels)"
    unfolding m using r by auto
  ultimately show ?thesis
    unfolding Map_get_def by (rule map_of_is_SomeI)
qed

lemma handleUpdatedRelations_throws_at:
  assumes "Map_get oldRelMap relId = Some oldRel"
    and "rel_type oldRel = ''one-to-many''" and "rel_type newRel = ''many-to-many''"
    and "\<not> truthy_string (inversePropertyName oldRel)"
  shows "handleUpdatedRelations nm oldRelMap (entriesBefore @ (relId, newRel) # entriesAfter)
           tableName s
         = andThen (handleUpdatedRelations nm oldRelMap entriesBefore tableName s)
             (\<lambda>s1. Inl (MissingInverse (propertyName oldRel),
                         init_junctionTables (init_crossTableOperations s1)))"
proof -
  have ne: "rel_type oldRel \<noteq> rel_type newRel"
    using assms(2,3) by simp
  have step: "\<And>s1. updatedRelation nm oldRel newRel tableName s1
          = Inl (MissingInverse (propertyName oldRel),
                 init_junctionTables (init_crossTableOperations s1))"
    by (simp only: updatedRelation_type_change [OF ne]
        typeChange_o2m_to_m2m_no_inverse [OF assms(2,3,4)])
  have tail: "handleUpdatedRelations nm oldRelMap ((relId, newRel) # entriesAfter) tableName
          = (\<lambda>s1. Inl (MissingInverse (propertyName oldRel),
                        init_junctionTables (init_crossTableOperations s1)))"
  proof (rule ext)
    fix s1
    show "handleUpdatedRelations nm oldRelMap ((relId, newRel) # entriesAfter) tableName s1
          = Inl (MissingInverse (propertyName oldRel),
                 init_junctionTables (init_crossTableOperations s1))"
      using assms(1) by (simp add: step)
  qed
  show ?thesis
    by (simp only: handleUpdatedRelations_append tail)
qed

lemma analyze_rejected:
  assumes "distinct (map rel_id oldRelations)" and "distinct (map rel_id newRelations)"
    and "oldRel \<in> set oldRelations" and "newRel \<in> set newRelations"
    and "rel_id oldRel = rel_id newRel"
    and "rel_type oldRel = ''one-to-many''" and "rel_type newRel = ''many-to-many''"
    and "\<not> truthy_string (inversePropertyName oldRel)"
  shows "\<exists>e s'. analyzeRelationChanges nm lookup oldRelations newRelations tableName s
                  = Inl (e, s')"
proof (cases "targetTableIds (oldRelations @ newRelations)")
  case (Inl e)
  then show ?thesis by (simp add: analyzeRelationChanges_def)
next
  case (Inr ids)
  define m where "m = (if length ids > 0 then targetTablesMapOf (lookup ids) else Map.empty)"
  show ?thesis
  proof (cases "mapE (resolveRelation m tableName) oldRelations")
    case (Inl e)
    then show ?thesis using Inr by (simp add: analyzeRelationChanges_def m_def)
  next
    case olds: (Inr olds)
    show ?thesis
    proof (cases "mapE (resolveRelation m tableName) newRelations")
      case (Inl e)
      then show ?thesis using Inr olds by (simp add: analyzeRelationChanges_def m_def)
    next
      case news: (Inr news)
      obtain oldRel' where o: "oldRel' \<in> set olds"
        and ro: "resolveRelation m tableName oldRel = Inr oldRel'"
        using mapE_resolve_member [OF olds assms(3)] by blast
      obtain newRel' where n: "newRel' \<in> set news"
        and rn: "resolveRelation m tableName newRel = Inr newRel'"
        using mapE_resolve_member [OF news assms(4)] by blast
      note ko = resolveRelation_keeps [OF ro]
      note kn = resolveRelation_keeps [OF rn]
      have dolds: "distinct (map rel_id olds)"
        using mapE_resolve_ids [OF olds] assms(1) by simp
      have dnews: "distinct (map rel_id news)"
        using mapE_resolve_ids [OF news] assms(2) by simp
      have get: "Map_get (relMap olds) (rel_id newRel') = Some oldRel'"
        using Map_get_relMap_unique [OF dolds o] ko kn assms(5) by simp
      have "(rel_id newRel', newRel') \<in> set (relMap news)"
        using relMap_unique_ids [OF dnews] n by auto
      then obtain before after where split:
        "relMap news = before @ (rel_id newRel', newRel') # after"
        by (auto dest: split_list)
      have t1: "rel_type oldRel' = ''one-to-many''" using ko assms(6) by simp
      have t2: "rel_type newRel' = ''many-to-many''" using kn assms(7) by simp
      have t3: "\<not> truthy_string (inversePropertyName oldRel')" using ko assms(8) by simp
      have upd: "\<And>s2. \<exists>e s'. handleUpdatedRelations nm (relMap olds) (relMap news)
                            tableName s2 = Inl (e, s')"
        unfolding split handleUpdatedRelations_throws_at [OF get t1 t2 t3]
        by (rule andThen_always_throws)
      have "analyzeRelationChanges nm lookup oldRelations newRelations tableName s
              = andThen (handleDeletedRelations nm olds (deletedRelIds olds news) s)
                  (\<lambda>s1. andThen
                           (handleCreatedRelations nm news (createdRelIds olds news)
                              tableName s1)
                           (handleUpdatedRelations nm (relMap olds) (relMap news)
                              tableName))"
        using Inr olds news by (simp add: analyzeRelationChanges_def m_def)
      then show ?thesis
        using upd
        by (auto simp: andThen_def split: sum.splits intro: prod.exhaust)
    qed
  qed
qed

section \<open>Name resolution\<close>

lemma resolveRelation_nonzero_id:
  assumes "\<not> truthy_target (targetTableName rel)" and "targetTable rel = JTableRef (Some i)"
    and "i \<noteq> 0"
  shows "\<exists>rel'. resolveRelation m tableName rel = Inr rel'
           \<and> targetTableName rel' = (case m i of None \<Rightarrow> JUndefined | Some n \<Rightarrow> JName n)"
  using assms by (simp add: resolveRelation_def)

lemma resolveRelation_plain_name:
  assumes "targetTable rel = JName n"
  shows "\<exists>rel'. resolveRelation m tableName rel = Inr rel'
           \<and> targetTable rel' = JName n
           \<and> targetTableName rel'
               = (if truthy_target (targetTableName rel) then targetTableName rel else JName n)"
  using assms by (simp add: resolveRelation_def)

text \<open>
  C7. A relation without \<^verbatim>\<open>targetTableName\<close> whose \<^verbatim>\<open>targetTable\<close> is the reference object
  \<^verbatim>\<open>{ id: 0 }\<close>, with a lookup that finds table 0 under the name \<^verbatim>\<open>"user"\<close>: the id is
  collected and entered into the lookup map, yet the relation does not receive the name.
  The test \<^verbatim>\<open>targetTableId ? ... : rel.targetTable\<close> takes 0 for no id, so
  \<^verbatim>\<open>targetTableName\<close> becomes the reference object itself, and the foreign-key column
  planned for the relation has that object as its target.
\<close>

theorem zero_id_is_not_resolved:
  "targetTableIds [zeroIdRelation] = Inr [0]
   \<and> targetTablesMapOf [(0, ''user'')] 0 = Some ''user''
   \<and> resolveRelation (targetTablesMapOf [(0, ''user'')]) ''post'' zeroIdRelation
       = Inr (zeroIdRelation\<lparr>sourceTableName := Some ''post'',
                             targetTableName := JTableRef (Some 0)\<rparr>)
   \<and> analyzeRelationChanges nm (\<lambda>ids. [(0, ''user'')]) [] [zeroIdRelation] ''post''
        (freshDiff, [])
       = Inr (freshDiff\<lparr>columns := Some \<lparr>col_create =
                 Some [\<lparr>cc_name = getForeignKeyColumnName nm ''author'', cc_type = ''int'',
                        cc_isNullable = True, cc_isForeignKey = True,
                        cc_foreignKeyTarget = JTableRef (Some 0),
                        cc_foreignKeyColumn = ''id''\<rparr>],
                 col_delete = Some []\<rparr>\<rparr>, [])"
  by (simp add: zeroIdRelation_def targetTableIds_def nonNullIds_def List.map_filter_simps
      targetTablesMapOf_def resolveRelation_def analyzeRelationChanges_def Let_def
      deletedRelIds_def createdRelIds_def relMap_def new_Map_def Map_has_def Map_get_def
      andThen_def createdRelation_def push_columns_create_def createFkEntry_def
      fkColumnFromProperty_def freshDiff_def sampleColumns_def)

section \<open>The caller's columns and the on-demand containers\<close>

lemmas push_defs = push_columns_delete_def push_columns_create_def
  push_crossTableOperations_def push_junction_create_def push_junction_drop_def

lemma columnsShape_init [simp]:
  "columnsShape (fst (init_crossTableOperations s)) = columnsShape (fst s)"
  "columnsShape (fst (init_junctionTables s)) = columnsShape (fst s)"
  "columnsShape (fst (warn w s)) = columnsShape (fst s)"
  by (simp_all add: columnsShape_def warn_def)

lemma keepsShape_push:
  "columnsShape (fst s) = sh \<Longrightarrow> keepsShape sh (push_columns_delete a s)"
  "columnsShape (fst s) = sh \<Longrightarrow> keepsShape sh (push_columns_create b s)"
  "columnsShape (fst s) = sh \<Longrightarrow> keepsShape sh (push_crossTableOperations c s)"
  "columnsShape (fst s) = sh \<Longrightarrow> keepsShape sh (push_junction_create d s)"
  "columnsShape (fst s) = sh \<Longrightarrow> keepsShape sh (push_junction_drop e s)"
  by (auto simp: keepsShape_def columnsShape_def final_state_def push_defs
      split: option.splits)

lemma keepsShape_result:
  "columnsShape (fst s) = sh \<Longrightarrow> keepsShape sh (Inl (e, s))"
  "columnsShape (fst s) = sh \<Longrightarrow> keepsShape sh (Inr s)"
  by (simp_all add: keepsShape_def final_state_def)

lemma keepsShape_andThen:
  "keepsShape sh r \<Longrightarrow> (\<And>s. columnsShape (fst s) = sh \<Longrightarrow> keepsShape sh (f s)) \<Longrightarrow>
   keepsShape sh (andThen r f)"
  by (cases r) (auto simp: andThen_def keepsShape_def final_state_def)

lemma keepsShape_if:
  "keepsShape sh a \<Longrightarrow> keepsShape sh b \<Longrightarrow> keepsShape sh (if c then a else b)"
  by simp

lemma keepsShape_case:
  "keepsShape sh a \<Longrightarrow> (\<And>x. keepsShape sh (b x)) \<Longrightarrow>
   keepsShape sh (case v of None \<Rightarrow> a | Some x \<Rightarrow> b x)"
  by (cases v) simp_all

lemma keepsShape_bind:
  "keepsShape sh r \<Longrightarrow> (\<And>s. columnsShape (fst s) = sh \<Longrightarrow> keepsShape sh (f s)) \<Longrightarrow>
   keepsShape sh (case r of Inl e \<Rightarrow> Inl e | Inr s \<Rightarrow> f s)"
  using keepsShape_andThen [of sh r f] by (simp add: andThen_def)

lemma typeChange_keepsShape:
  "columnsShape (fst s) = sh \<Longrightarrow>
   keepsShape sh (handleRelationTypeChange nm oldRel newRel tableName s)"
  unfolding handleRelationTypeChange_def Let_def
  by (intro keepsShape_if keepsShape_andThen keepsShape_case keepsShape_result
      keepsShape_push) simp_all

lemma deletedRelation_keepsShape:
  "columnsShape (fst s) = sh \<Longrightarrow> keepsShape sh (deletedRelation nm rel s)"
  unfolding deletedRelation_def
  by (intro keepsShape_if keepsShape_case keepsShape_result keepsShape_push) simp_all

lemma createdRelation_keepsShape:
  "columnsShape (fst s) = sh \<Longrightarrow> keepsShape sh (createdRelation nm rel tableName s)"
  unfolding createdRelation_def
  by (intro keepsShape_if keepsShape_case keepsShape_result keepsShape_push) simp_all

lemma updatedRelation_keepsShape:
  "columnsShape (fst s) = sh \<Longrightarrow>
   keepsShape sh (updatedRelation nm oldRel newRel tableName s)"
  unfolding updatedRelation_def
  by (intro keepsShape_if keepsShape_result typeChange_keepsShape)

lemma handleDeletedRelations_keepsShape:
  "columnsShape (fst s) = sh \<Longrightarrow> keepsShape sh (handleDeletedRelations nm rels ids s)"
proof (induction ids arbitrary: s)
  case Nil
  then show ?case by (simp add: keepsShape_result)
next
  case (Cons i ids)
  show ?case
    unfolding handleDeletedRelations.simps
    by (intro keepsShape_case keepsShape_bind Cons.IH deletedRelation_keepsShape Cons.prems)
qed

lemma handleCreatedRelations_keepsShape:
  "columnsShape (fst s) = sh \<Longrightarrow>
   keepsShape sh (handleCreatedRelations nm rels ids tableName s)"
proof (induction ids arbitrary: s)
  case Nil
  then show ?case by (simp add: keepsShape_result)
next
  case (Cons i ids)
  show ?case
    unfolding handleCreatedRelations.simps
    by (intro keepsShape_case keepsShape_bind Cons.IH createdRelation_keepsShape Cons.prems)
qed

lemma handleUpdatedRelations_keepsShape:
  "columnsShape (fst s) = sh \<Longrightarrow>
   keepsShape sh (handleUpdatedRelations nm oldRelMap entries tableName s)"
proof (induction entries arbitrary: s)
  case Nil
  then show ?case by (simp add: keepsShape_result)
next
  case (Cons p entries)
  obtain relId newRel where p: "p = (relId, newRel)" by (cases p)
  show ?case
    unfolding p handleUpdatedRelations.simps
    by (intro keepsShape_case keepsShape_bind Cons.IH updatedRelation_keepsShape Cons.prems)
qed

lemma analyze_keepsShape:
  "keepsShape (columnsShape (fst s))
     (analyzeRelationChanges nm lookup oldRelations newRelations tableName s)"
  unfolding analyzeRelationChanges_def Let_def
  by (auto split: sum.splits
      intro!: keepsShape_result keepsShape_andThen handleDeletedRelations_keepsShape
        handleCreatedRelations_keepsShape handleUpdatedRelations_keepsShape)


lemma fullyReady_init:
  "columnsReady s \<Longrightarrow> fullyReady (init_junctionTables (init_crossTableOperations s))"
  by (simp add: fullyReady_def columnsReady_def containersInitialized_def
      hasColumnsCreate_def hasColumnsDelete_def)

lemma runsClean_push:
  "fullyReady s \<Longrightarrow> runsClean fullyReady (push_columns_delete a s)"
  "fullyReady s \<Longrightarrow> runsClean fullyReady (push_columns_create b s)"
  "fullyReady s \<Longrightarrow> runsClean fullyReady (push_crossTableOperations c s)"
  "fullyReady s \<Longrightarrow> runsClean fullyReady (push_junction_create d s)"
  "fullyReady s \<Longrightarrow> runsClean fullyReady (push_junction_drop e s)"
  by (auto simp: runsClean_def noTypeError_def final_state_def fullyReady_def
      columnsReady_def containersInitialized_def hasColumnsCreate_def hasColumnsDelete_def
      push_defs split: option.splits)

lemma runsClean_result:
  "Q s \<Longrightarrow> runsClean Q (Inl (MissingInverse p, s))"
  "Q s \<Longrightarrow> runsClean Q (Inr s)"
  by (simp_all add: runsClean_def noTypeError_def final_state_def)

lemma fullyReady_warn: "fullyReady s \<Longrightarrow> fullyReady (warn w s)"
  by (simp add: fullyReady_def columnsReady_def containersInitialized_def warn_def)

lemma columnsReady_warn: "columnsReady s \<Longrightarrow> columnsReady (warn w s)"
  by (simp add: columnsReady_def warn_def)

lemma runsClean_andThen:
  "runsClean Q r \<Longrightarrow> (\<And>s. Q s \<Longrightarrow> runsClean Q (f s)) \<Longrightarrow> runsClean Q (andThen r f)"
  by (cases r) (auto simp: andThen_def runsClean_def noTypeError_def final_state_def)

lemma runsClean_bind:
  "runsClean Q r \<Longrightarrow> (\<And>s. Q s \<Longrightarrow> runsClean Q (f s)) \<Longrightarrow>
   runsClean Q (case r of Inl e \<Rightarrow> Inl e | Inr s \<Rightarrow> f s)"
  using runsClean_andThen [of Q r f] by (simp add: andThen_def)

lemma runsClean_if:
  "runsClean Q a \<Longrightarrow> runsClean Q b \<Longrightarrow> runsClean Q (if c then a else b)"
  by simp

lemma runsClean_case:
  "runsClean Q a \<Longrightarrow> (\<And>x. runsClean Q (b x)) \<Longrightarrow>
   runsClean Q (case v of None \<Rightarrow> a | Some x \<Rightarrow> b x)"
  by (cases v) simp_all

lemma runsClean_weaken:
  "runsClean fullyReady r \<Longrightarrow> runsClean columnsReady r"
  by (simp add: runsClean_def fullyReady_def)

lemma typeChange_runsClean:
  assumes "columnsReady s"
  shows "runsClean columnsReady (handleRelationTypeChange nm oldRel newRel tableName s)"
proof -
  have "fullyReady (init_junctionTables (init_crossTableOperations s))"
    using assms by (rule fullyReady_init)
  then have "runsClean fullyReady (handleRelationTypeChange nm oldRel newRel tableName s)"
    unfolding handleRelationTypeChange_def Let_def
    by (intro runsClean_if runsClean_andThen runsClean_case runsClean_result
        runsClean_push fullyReady_warn)
  then show ?thesis by (rule runsClean_weaken)
qed

lemma push_after_init_runsClean:
  "columnsReady s \<Longrightarrow>
   runsClean columnsReady (push_crossTableOperations c (init_crossTableOperations s))"
  "columnsReady s \<Longrightarrow>
   runsClean columnsReady (push_junction_create d (init_junctionTables s))"
  "columnsReady s \<Longrightarrow>
   runsClean columnsReady (push_junction_drop e (init_junctionTables s))"
  "columnsReady s \<Longrightarrow> runsClean columnsReady (push_columns_delete a s)"
  "columnsReady s \<Longrightarrow> runsClean columnsReady (push_columns_create b s)"
  by (auto simp: runsClean_def noTypeError_def final_state_def columnsReady_def
      hasColumnsCreate_def hasColumnsDelete_def push_defs init_crossTableOperations_def
      init_junctionTables_def split: option.splits)

lemma deletedRelation_runsClean:
  "columnsReady s \<Longrightarrow> runsClean columnsReady (deletedRelation nm rel s)"
  unfolding deletedRelation_def
  by (intro runsClean_if runsClean_case runsClean_result push_after_init_runsClean
      columnsReady_warn)

lemma createdRelation_runsClean:
  "columnsReady s \<Longrightarrow> runsClean columnsReady (createdRelation nm rel tableName s)"
  unfolding createdRelation_def
  by (intro runsClean_if runsClean_case runsClean_result push_after_init_runsClean
      columnsReady_warn)

lemma updatedRelation_runsClean:
  "columnsReady s \<Longrightarrow> runsClean columnsReady (updatedRelation nm oldRel newRel tableName s)"
  unfolding updatedRelation_def
  by (intro runsClean_if runsClean_result typeChange_runsClean)

lemma handleDeletedRelations_runsClean:
  "columnsReady s \<Longrightarrow> runsClean columnsReady (handleDeletedRelations nm rels ids s)"
proof (induction ids arbitrary: s)
  case Nil
  then show ?case by (simp add: runsClean_result)
next
  case (Cons i ids)
  show ?case
    unfolding handleDeletedRelations.simps
    by (intro runsClean_case runsClean_bind Cons.IH deletedRelation_runsClean Cons.prems)
qed

lemma handleCreatedRelations_runsClean:
  "columnsReady s \<Longrightarrow>
   runsClean columnsReady (handleCreatedRelations nm rels ids tableName s)"
proof (induction ids arbitrary: s)
  case Nil
  then show ?case by (simp add: runsClean_result)
next
  case (Cons i ids)
  show ?case
    unfolding handleCreatedRelations.simps
    by (intro runsClean_case runsClean_bind Cons.IH createdRelation_runsClean Cons.prems)
qed

lemma handleUpdatedRelations_runsClean:
  "columnsReady s \<Longrightarrow>
   runsClean columnsReady (handleUpdatedRelations nm oldRelMap entries tableName s)"
proof (induction entries arbitrary: s)
  case Nil
  then show ?case by (simp add: runsClean_result)
next
  case (Cons p entries)
  obtain relId newRel where p: "p = (relId, newRel)" by (cases p)
  show ?case
    unfolding p handleUpdatedRelations.simps
    by (intro runsClean_case runsClean_bind Cons.IH updatedRelation_runsClean Cons.prems)
qed

lemma mapE_never_throws:
  "(\<And>x. x \<in> set xs \<Longrightarrow> \<exists>y. f x = Inr y) \<Longrightarrow> \<exists>ys. mapE f xs = Inr ys"
proof (induction xs)
  case Nil
  then show ?case by simp
next
  case (Cons x xs)
  obtain y where y: "f x = Inr y" using Cons.prems [of x] by auto
  obtain ys where ys: "mapE f xs = Inr ys" using Cons.IH Cons.prems by auto
  show ?case by (simp add: y ys)
qed

lemma targetTableIdOf_not_null:
  "targetTable rel \<noteq> JNull \<Longrightarrow> \<exists>i. targetTableIdOf rel = Inr i"
  by (cases "targetTable rel") simp_all

lemma resolveRelation_not_null:
  "targetTable rel \<noteq> JNull \<Longrightarrow> \<exists>rel'. resolveRelation m tableName rel = Inr rel'"
  using targetTableIdOf_not_null [of rel]
  by (auto simp: resolveRelation_def simp del: targetTableIdOf.simps)

lemma analyze_runsClean:
  assumes "columnsReady s" and "JNull \<notin> targetTable ` set (oldRelations @ newRelations)"
  shows "runsClean columnsReady
           (analyzeRelationChanges nm lookup oldRelations newRelations tableName s)"
proof -
  have nn: "\<And>r. r \<in> set (oldRelations @ newRelations) \<Longrightarrow> targetTable r \<noteq> JNull"
    using assms(2) by (metis imageI)
  obtain optIds where "mapE targetTableIdOf (oldRelations @ newRelations) = Inr optIds"
    using mapE_never_throws [of "oldRelations @ newRelations" targetTableIdOf]
      targetTableIdOf_not_null nn by blast
  then obtain ids where ids: "targetTableIds (oldRelations @ newRelations) = Inr ids"
    by (simp add: targetTableIds_def)
  define m where "m = (if length ids > 0 then targetTablesMapOf (lookup ids) else Map.empty)"
  obtain olds where olds: "mapE (resolveRelation m tableName) oldRelations = Inr olds"
    using mapE_never_throws [of oldRelations "resolveRelation m tableName"]
      resolveRelation_not_null nn by (metis Un_iff set_append)
  obtain news where news: "mapE (resolveRelation m tableName) newRelations = Inr news"
    using mapE_never_throws [of newRelations "resolveRelation m tableName"]
      resolveRelation_not_null nn by (metis Un_iff set_append)
  have "analyzeRelationChanges nm lookup oldRelations newRelations tableName s
          = andThen (handleDeletedRelations nm olds (deletedRelIds olds news) s)
              (\<lambda>s1. andThen
                       (handleCreatedRelations nm news (createdRelIds olds news)
                          tableName s1)
                       (handleUpdatedRelations nm (relMap olds) (relMap news)
                          tableName))"
    using ids olds news by (simp add: analyzeRelationChanges_def m_def)
  then show ?thesis
    using assms(1)
    by (simp only:)
      (intro runsClean_andThen handleDeletedRelations_runsClean
        handleCreatedRelations_runsClean handleUpdatedRelations_runsClean)
qed

lemma deletedRelation_needs_columns:
  "\<not> hasColumnsDelete (fst s) \<Longrightarrow>
   rel_type rel = ''many-to-one'' \<or> rel_type rel = ''one-to-one'' \<Longrightarrow>
   deletedRelation nm rel s = Inl (TypeError, s)"
  by (auto simp: deletedRelation_def push_columns_delete_def hasColumnsDelete_def
      split: option.splits)

lemma createdRelation_needs_columns:
  "\<not> hasColumnsCreate (fst s) \<Longrightarrow>
   rel_type rel = ''many-to-one'' \<or> rel_type rel = ''one-to-one'' \<Longrightarrow>
   createdRelation nm rel tableName s = Inl (TypeError, s)"
  by (auto simp: createdRelation_def push_columns_create_def hasColumnsCreate_def
      split: option.splits)

text \<open>
  C10. The analysis never creates \<^verbatim>\<open>diff.columns\<close> or its arrays: whatever the inputs and
  however the run ends, the diff has them exactly where the caller's diff had them.
  Without \<^verbatim>\<open>columns.delete\<close> (or \<^verbatim>\<open>columns.create\<close>) a push to it throws a TypeError and
  leaves the diff as it was, and so does planning the deletion (or creation) of a
  many-to-one or one-to-one relation. With both arrays present, and no relation whose
  \<^verbatim>\<open>targetTable\<close> is \<^verbatim>\<open>null\<close>, the analysis throws no TypeError, whether or not the
  caller's diff has \<^verbatim>\<open>crossTableOperations\<close> and \<^verbatim>\<open>junctionTables\<close>: those two are set up
  before each use.
\<close>

theorem columns_required_containers_on_demand:
  "(\<not> hasColumnsDelete (fst s) \<longrightarrow>
      push_columns_delete cd s = Inl (TypeError, s)
      \<and> (rel_type rel = ''many-to-one'' \<or> rel_type rel = ''one-to-one'' \<longrightarrow>
           deletedRelation nm rel s = Inl (TypeError, s)))
   \<and> (\<not> hasColumnsCreate (fst s) \<longrightarrow>
      push_columns_create cc s = Inl (TypeError, s)
      \<and> (rel_type rel = ''many-to-one'' \<or> rel_type rel = ''one-to-one'' \<longrightarrow>
           createdRelation nm rel tableName s = Inl (TypeError, s)))
   \<and> columnsShape
        (fst (final_state
               (analyzeRelationChanges nm lookup oldRelations newRelations tableName s)))
       = columnsShape (fst s)
   \<and> (hasColumnsCreate (fst s) \<and> hasColumnsDelete (fst s)
        \<and> JNull \<notin> targetTable ` set (oldRelations @ newRelations) \<longrightarrow>
        noTypeError (analyzeRelationChanges nm lookup oldRelations newRelations tableName s))"
proof (intro conjI impI)
  assume a: "\<not> hasColumnsDelete (fst s)"
  then show "push_columns_delete cd s = Inl (TypeError, s)"
    by (auto simp: push_columns_delete_def hasColumnsDelete_def split: option.splits)
  assume "rel_type rel = ''many-to-one'' \<or> rel_type rel = ''one-to-one''"
  with a show "deletedRelation nm rel s = Inl (TypeError, s)"
    by (rule deletedRelation_needs_columns)
next
  assume a: "\<not> hasColumnsCreate (fst s)"
  then show "push_columns_create cc s = Inl (TypeError, s)"
    by (auto simp: push_columns_create_def hasColumnsCreate_def split: option.splits)
  assume "rel_type rel = ''many-to-one'' \<or> rel_type rel = ''one-to-one''"
  with a show "createdRelation nm rel tableName s = Inl (TypeError, s)"
    by (rule createdRelation_needs_columns)
next
  show "columnsShape
        (fst (final_state
               (analyzeRelationChanges nm lookup oldRelations newRelations tableName s)))
       = columnsShape (fst s)"
    using analyze_keepsShape [of s nm lookup oldRelations newRelations tableName]
    by (simp add: keepsShape_def)
next
  assume "hasColumnsCreate (fst s) \<and> hasColumnsDelete (fst s)
        \<and> JNull \<notin> targetTable ` set (oldRelations @ newRelations)"
  then have "runsClean columnsReady
               (analyzeRelationChanges nm lookup oldRelations newRelations tableName s)"
    by (intro analyze_runsClean) (simp_all add: columnsReady_def)
  then show
    "noTypeError (analyzeRelationChanges nm lookup oldRelations newRelations tableName s)"
    by (simp add: runsClean_def)
qed

theorem columns_required_containers_on_demand_witness:
  "crossTableOperations freshDiff = None \<and> junctionTables freshDiff = None
   \<and> noTypeError
       (analyzeRelationChanges sampleNaming (\<lambda>ids. [(7, ''user'')]) [sampleRelation]
          [sampleRelation\<lparr>rel_id := 2, rel_type := ''one-to-many'',
                           inversePropertyName := Some ''posts''\<rparr>] ''post'' (freshDiff, []))
   \<and> columnsShape
       (fst (final_state
              (analyzeRelationChanges sampleNaming (\<lambda>ids. [(7, ''user'')]) [sampleRelation]
                 [sampleRelation\<lparr>rel_id := 2, rel_type := ''one-to-many'',
                                  inversePropertyName := Some ''posts''\<rparr>] ''post''
                 (bareDiff, []))))
       = None
   \<and> deletedRelation sampleNaming sampleRelation (bareDiff, []) = Inl (TypeError, (bareDiff, []))"
proof -
  let ?news = "[sampleRelation\<lparr>rel_id := 2, rel_type := ''one-to-many'',
                                inversePropertyName := Some ''posts''\<rparr>]"
  have ready: "hasColumnsCreate freshDiff" "hasColumnsDelete freshDiff"
    by (simp_all add: hasColumnsCreate_def hasColumnsDelete_def freshDiff_fields)
  have nn: "JNull \<notin> targetTable ` set ([sampleRelation] @ ?news)"
    by (simp add: sampleRelation_fields)
  have bare: "\<not> hasColumnsDelete bareDiff" "columnsShape bareDiff = None"
    by (simp_all add: hasColumnsDelete_def columnsShape_def bareDiff_def)
  have t: "rel_type sampleRelation = ''many-to-one''"
    by (simp add: sampleRelation_fields)
  have a: "noTypeError
       (analyzeRelationChanges sampleNaming (\<lambda>ids. [(7, ''user'')]) [sampleRelation] ?news
          ''post'' (freshDiff, []))"
    using columns_required_containers_on_demand [where s = "(freshDiff, [])"
        and oldRelations = "[sampleRelation]" and newRelations = ?news
        and nm = sampleNaming and lookup = "\<lambda>ids. [(7, ''user'')]" and tableName = "''post''"]
      ready nn
    by simp
  have b: "columnsShape
       (fst (final_state
              (analyzeRelationChanges sampleNaming (\<lambda>ids. [(7, ''user'')]) [sampleRelation]
                 ?news ''post'' (bareDiff, []))))
       = None
     \<and> deletedRelation sampleNaming sampleRelation (bareDiff, [])
         = Inl (TypeError, (bareDiff, []))"
    using columns_required_containers_on_demand [where s = "(bareDiff, [])"
        and oldRelations = "[sampleRelation]" and newRelations = ?news
        and nm = sampleNaming and lookup = "\<lambda>ids. [(7, ''user'')]" and tableName = "''post''"
        and rel = sampleRelation]
      bare t
    by simp
  show ?thesis
    using a b by (simp add: freshDiff_fields)
qed

section \<open>The fatal error, in the whole analysis\<close>

text \<open>
  C1. A matched pair that goes from one-to-many to many-to-many, whose old relation has no
  \<^verbatim>\<open>inversePropertyName\<close> (missing or empty): the resolver throws the
  missing-\<^verbatim>\<open>inversePropertyName\<close> error, and the diff it leaves holds, in each of its six
  lists, exactly the entries it held before (only the two containers are initialised).
  In the update loop the entries before that pair are processed as usual; unless one of
  them throws first, the loop stops at the pair with that error and the diff those earlier
  entries produced, and the later entries are not processed. The whole analysis, with ids
  unique in each list, is then rejected; on a diff that has its two \<^verbatim>\<open>columns\<close> arrays,
  and with no \<^verbatim>\<open>null\<close> target, the error is a missing-\<^verbatim>\<open>inversePropertyName\<close> error.
\<close>

theorem o2m_to_m2m_without_inverse_is_fatal:
  assumes "rel_type oldRel = ''one-to-many''" and "rel_type newRel = ''many-to-many''"
    and "\<not> truthy_string (inversePropertyName oldRel)"
  shows "(\<exists>s'. handleRelationTypeChange nm oldRel newRel tableName s
                 = Inl (MissingInverse (propertyName oldRel), s')
              \<and> columnsCreate (fst s') = columnsCreate (fst s)
              \<and> columnsDelete (fst s') = columnsDelete (fst s)
              \<and> crossOps (fst s') = crossOps (fst s)
              \<and> junctionCreate (fst s') = junctionCreate (fst s)
              \<and> junctionDrop (fst s') = junctionDrop (fst s)
              \<and> junctionUpdate (fst s') = junctionUpdate (fst s)
              \<and> snd s' = snd s)
         \<and> (Map_get oldRelMap relId = Some oldRel \<longrightarrow>
              handleUpdatedRelations nm oldRelMap
                (entriesBefore @ (relId, newRel) # entriesAfter) tableName s
              = andThen (handleUpdatedRelations nm oldRelMap entriesBefore tableName s)
                  (\<lambda>s1. Inl (MissingInverse (propertyName oldRel),
                              init_junctionTables (init_crossTableOperations s1))))
         \<and> (distinct (map rel_id oldRelations) \<and> distinct (map rel_id newRelations)
              \<and> oldRel \<in> set oldRelations \<and> newRel \<in> set newRelations
              \<and> rel_id oldRel = rel_id newRel \<longrightarrow>
              (\<exists>e s'. analyzeRelationChanges nm lookup oldRelations newRelations tableName s
                        = Inl (e, s'))
              \<and> (hasColumnsCreate (fst s) \<and> hasColumnsDelete (fst s)
                   \<and> JNull \<notin> targetTable ` set (oldRelations @ newRelations) \<longrightarrow>
                   (\<exists>p s'. analyzeRelationChanges nm lookup oldRelations newRelations
                              tableName s
                            = Inl (MissingInverse p, s'))))"
proof (intro conjI impI)
  have "handleRelationTypeChange nm oldRel newRel tableName s
          = Inl (MissingInverse (propertyName oldRel),
                 init_junctionTables (init_crossTableOperations s))"
    using assms by (rule typeChange_o2m_to_m2m_no_inverse)
  then show "\<exists>s'. handleRelationTypeChange nm oldRel newRel tableName s
                 = Inl (MissingInverse (propertyName oldRel), s')
              \<and> columnsCreate (fst s') = columnsCreate (fst s)
              \<and> columnsDelete (fst s') = columnsDelete (fst s)
              \<and> crossOps (fst s') = crossOps (fst s)
              \<and> junctionCreate (fst s') = junctionCreate (fst s)
              \<and> junctionDrop (fst s') = junctionDrop (fst s)
              \<and> junctionUpdate (fst s') = junctionUpdate (fst s)
              \<and> snd s' = snd s"
    by simp
next
  assume "Map_get oldRelMap relId = Some oldRel"
  then show "handleUpdatedRelations nm oldRelMap
                (entriesBefore @ (relId, newRel) # entriesAfter) tableName s
              = andThen (handleUpdatedRelations nm oldRelMap entriesBefore tableName s)
                  (\<lambda>s1. Inl (MissingInverse (propertyName oldRel),
                              init_junctionTables (init_crossTableOperations s1)))"
    using assms by (rule handleUpdatedRelations_throws_at)
next
  assume "distinct (map rel_id oldRelations) \<and> distinct (map rel_id newRelations)
              \<and> oldRel \<in> set oldRelations \<and> newRel \<in> set newRelations
              \<and> rel_id oldRel = rel_id newRel"
  then have rej: "\<exists>e s'. analyzeRelationChanges nm lookup oldRelations newRelations tableName s
                        = Inl (e, s')"
    using assms by (intro analyze_rejected) simp_all
  then show "\<exists>e s'. analyzeRelationChanges nm lookup oldRelations newRelations tableName s
                        = Inl (e, s')" .
  assume "hasColumnsCreate (fst s) \<and> hasColumnsDelete (fst s)
                   \<and> JNull \<notin> targetTable ` set (oldRelations @ newRelations)"
  then have "runsClean columnsReady
               (analyzeRelationChanges nm lookup oldRelations newRelations tableName s)"
    by (intro analyze_runsClean) (simp_all add: columnsReady_def)
  then have nt:
    "noTypeError (analyzeRelationChanges nm lookup oldRelations newRelations tableName s)"
    by (simp add: runsClean_def)
  from rej obtain e s' where
    r: "analyzeRelationChanges nm lookup oldRelations newRelations tableName s = Inl (e, s')"
    by blast
  have "e \<noteq> TypeError"
    using nt unfolding r by (simp add: noTypeError_def)
  then obtain p where "e = MissingInverse p"
    by (cases e) simp_all
  then show "\<exists>p s'. analyzeRelationChanges nm lookup oldRelations newRelations tableName s
                     = Inl (MissingInverse p, s')"
    using r by blast
qed

theorem o2m_to_m2m_without_inverse_is_fatal_witness:
  "\<not> truthy_string (inversePropertyName (sampleRelation\<lparr>rel_type := ''one-to-many''\<rparr>))
   \<and> (\<exists>s'. handleRelationTypeChange sampleNaming
               (sampleRelation\<lparr>rel_type := ''one-to-many''\<rparr>)
               (sampleRelation\<lparr>rel_type := ''many-to-many''\<rparr>) ''post'' (freshDiff, [])
             = Inl (MissingInverse ''author'', s')
           \<and> columnsCreate (fst s') = []
           \<and> columnsDelete (fst s') = []
           \<and> crossOps (fst s') = []
           \<and> junctionCreate (fst s') = []
           \<and> junctionDrop (fst s') = []
           \<and> junctionUpdate (fst s') = []
           \<and> snd s' = [])
   \<and> (\<exists>p s'. analyzeRelationChanges sampleNaming (\<lambda>ids. [(7, ''user'')])
                 [sampleRelation\<lparr>rel_type := ''one-to-many''\<rparr>]
                 [sampleRelation\<lparr>rel_type := ''many-to-many''\<rparr>] ''post'' (freshDiff, [])
               = Inl (MissingInverse p, s'))"
proof -
  let ?old = "sampleRelation\<lparr>rel_type := ''one-to-many''\<rparr>"
  let ?new = "sampleRelation\<lparr>rel_type := ''many-to-many''\<rparr>"
  have h1: "rel_type ?old = ''one-to-many''" by simp
  have h2: "rel_type ?new = ''many-to-many''" by simp
  have h3: "\<not> truthy_string (inversePropertyName ?old)"
    by (simp add: sampleRelation_fields)
  from o2m_to_m2m_without_inverse_is_fatal [OF h1 h2 h3, where nm = sampleNaming
      and tableName = "''post''" and s = "(freshDiff, [])" and oldRelations = "[?old]"
      and newRelations = "[?new]" and lookup = "\<lambda>ids. [(7, ''user'')]"]
  show ?thesis
    using h3
    by (simp add: freshDiff_lists freshDiff_fields sampleRelation_fields
        hasColumnsCreate_def hasColumnsDelete_def)
qed

section \<open>Initialisation of the containers\<close>

lemmas raw_push_defs = raw_push_columns_delete_def raw_push_columns_create_def
  raw_push_crossTableOperations_def raw_push_junction_create_def raw_push_junction_drop_def

lemma raw_init_of_state:
  "raw_init_crossTableOperations (raw_of_state s) = raw_of_state (init_crossTableOperations s)"
  "raw_init_junctionTables (raw_of_state s) = raw_of_state (init_junctionTables s)"
  by (simp_all add: raw_init_crossTableOperations_def raw_init_junctionTables_def
      init_crossTableOperations_def init_junctionTables_def raw_of_state_def raw_of_diff_def
      split: option.splits)

lemma agrees_push:
  "agrees (raw_push_columns_delete a (raw_of_state s)) (push_columns_delete a s)"
  "agrees (raw_push_columns_create b (raw_of_state s)) (push_columns_create b s)"
  "agrees (raw_push_crossTableOperations c (raw_of_state s)) (push_crossTableOperations c s)"
  "agrees (raw_push_junction_create d (raw_of_state s)) (push_junction_create d s)"
  "agrees (raw_push_junction_drop e (raw_of_state s)) (push_junction_drop e s)"
  by (simp_all add: agrees_def raw_of_outcome_def raw_of_state_def raw_of_diff_def
      raw_push_defs push_columns_delete_def push_columns_create_def
      push_crossTableOperations_def push_junction_create_def push_junction_drop_def
      split: option.splits)

lemma agrees_andThen:
  "agrees r' r \<Longrightarrow> (\<And>s. agrees (f' (raw_of_state s)) (f s)) \<Longrightarrow>
   agrees (raw_andThen r' f') (andThen r f)"
  by (cases r) (auto simp: agrees_def raw_of_outcome_def raw_andThen_def andThen_def)

lemma agrees_if:
  "agrees a' a \<Longrightarrow> agrees b' b \<Longrightarrow> agrees (if c then a' else b') (if c then a else b)"
  by simp

lemma agrees_case:
  "agrees a' a \<Longrightarrow> (\<And>x. agrees (b' x) (b x)) \<Longrightarrow>
   agrees (case v of None \<Rightarrow> a' | Some x \<Rightarrow> b' x) (case v of None \<Rightarrow> a | Some x \<Rightarrow> b x)"
  by (cases v) simp_all

lemma agrees_result:
  "agrees (Inl (e, raw_of_state s)) (Inl (e, s))"
  "agrees (Inr (raw_of_state s)) (Inr s)"
  "agrees (Inr (raw_warn w (raw_of_state s))) (Inr (warn w s))"
  by (simp_all add: agrees_def raw_of_outcome_def raw_of_state_def raw_warn_def warn_def)

lemma raw_handleRelationTypeChange_restricts:
  "raw_handleRelationTypeChange nm oldRel newRel tableName (raw_of_state s)
     = raw_of_outcome (handleRelationTypeChange nm oldRel newRel tableName s)"
proof -
  have "agrees (raw_handleRelationTypeChange nm oldRel newRel tableName (raw_of_state s))
          (handleRelationTypeChange nm oldRel newRel tableName s)"
    unfolding raw_handleRelationTypeChange_def handleRelationTypeChange_def Let_def
      raw_init_of_state
    by (intro agrees_if agrees_andThen agrees_case agrees_result agrees_push)
  then show ?thesis by (simp add: agrees_def)
qed










end
